theory Spec2Isabelle
  imports Complex_Main "HOL-Library.AList"
begin

section \<open>JavaScript values used by the pipeline\<close>

subsection \<open>Objects\<close>

text \<open>
  A parsed CSV row and an employee record are plain objects whose own properties hold
  strings; a provider output record holds what the transformations return. They are
  association lists in insertion order: reading a
  property that is not there gives \<open>None\<close> (JavaScript's \<open>undefined\<close>), assigning to an
  existing key keeps its position, assigning to a new key appends it, \<open>delete\<close> removes it.
  A string is the list of its code units, each of them below 256 (the characters
  \<open>U+0000\<close> to \<open>U+00FF\<close>): a \<open>char\<close> is the code unit of that number. Names of properties
  are names of fields of the schema and of the mappings; none of them is the name of a
  member of \<open>Object.prototype\<close>.
\<close>

type_synonym obj = "(string \<times> string) list"

definition getProp :: "(string \<times> 'v) list \<Rightarrow> string \<Rightarrow> 'v option" where
  "getProp r k = map_of r k"

definition assign :: "string \<Rightarrow> 'v \<Rightarrow> (string \<times> 'v) list \<Rightarrow> (string \<times> 'v) list" where
  "assign k v r = AList.update k v r"

definition deleteProp :: "string \<Rightarrow> (string \<times> 'v) list \<Rightarrow> (string \<times> 'v) list" where
  "deleteProp k r = AList.delete k r"

text \<open>Truthiness of a property value: \<open>undefined\<close> and the empty string are falsy.\<close>

definition truthy :: "string option \<Rightarrow> bool" where
  "truthy v = (case v of None \<Rightarrow> False | Some s \<Rightarrow> s \<noteq> [])"

text \<open>\<open>v || ''\<close> on a property value.\<close>

definition orEmpty :: "string option \<Rightarrow> string" where
  "orEmpty v = (case v of None \<Rightarrow> [] | Some s \<Rightarrow> s)"

text \<open>\<open>String(v)\<close> and template interpolation \<open>${v}\<close> of a property value.\<close>

definition toStr :: "string option \<Rightarrow> string" where
  "toStr v = (case v of None \<Rightarrow> ''undefined'' | Some s \<Rightarrow> s)"

subsection \<open>Strings\<close>

text \<open>
  White space, as \<open>trim\<close>, the class \<open>\s\<close> and \<open>parseFloat\<close> understand it: tab, line feed,
  vertical tab, form feed, carriage return, space and the no-break space \<open>U+00A0\<close>.
\<close>

definition isWhite :: "char \<Rightarrow> bool" where
  "isWhite c =
     (c \<in> set [CHR '' '', CHR 0x09, CHR 0x0A, CHR 0x0B, CHR 0x0C, CHR 0x0D, CHR 0xA0])"

definition isDigit :: "char \<Rightarrow> bool" where
  "isDigit c = (c \<in> set ''0123456789'')"

definition trim :: "string \<Rightarrow> string" where
  "trim s = rev (dropWhile isWhite (rev (dropWhile isWhite s)))"

text \<open>
  The upper-case form of a character, as code units: a letter \<open>a\<close> to \<open>z\<close> and a letter
  \<open>U+00E0\<close> to \<open>U+00FE\<close> other than the division sign \<open>U+00F7\<close> move down by 32, the sharp s
  \<open>U+00DF\<close> becomes \<open>SS\<close>, the micro sign \<open>U+00B5\<close> becomes \<open>U+039C\<close>, and \<open>U+00FF\<close> becomes
  \<open>U+0178\<close>. The last two are beyond 255, so the result is a list of numbers.
\<close>

definition upperChar :: "char \<Rightarrow> int list" where
  "upperChar c =
     (let n = of_char c in
      if 97 \<le> n \<and> n \<le> 122 then [n - 32]
      else if n = 181 then [924]
      else if n = 223 then [83, 83]
      else if 224 \<le> n \<and> n \<le> 254 \<and> n \<noteq> 247 then [n - 32]
      else if n = 255 then [376]
      else [n])"

text \<open>
  The lower-case form of a character: a letter \<open>A\<close> to \<open>Z\<close> and a letter \<open>U+00C0\<close> to
  \<open>U+00DE\<close> other than the multiplication sign \<open>U+00D7\<close> move up by 32.
\<close>

definition lowerChar :: "char \<Rightarrow> char" where
  "lowerChar c =
     (let n = of_char c :: int in
      if (65 \<le> n \<and> n \<le> 90) \<or> (192 \<le> n \<and> n \<le> 222 \<and> n \<noteq> 215) then char_of (n + 32)
      else c)"

text \<open>The code units of a string, as numbers.\<close>

definition codeUnits :: "string \<Rightarrow> int list" where
  "codeUnits s = map of_char s"

definition toUpperCase :: "string \<Rightarrow> int list" where
  "toUpperCase s = concat (map upperChar s)"

definition toLowerCase :: "string \<Rightarrow> string" where
  "toLowerCase s = map lowerChar s"

definition startsWith :: "string \<Rightarrow> string \<Rightarrow> bool" where
  "startsWith p s = (take (length p) s = p)"

text \<open>\<open>xs.join(sep)\<close>\<close>

fun join :: "string \<Rightarrow> string list \<Rightarrow> string" where
  "join sep [] = []"
| "join sep [x] = x"
| "join sep (x # y # ys) = x @ sep @ join sep (y # ys)"

text \<open>\<open>s.split(c)\<close> for a one-character separator: always at least one part.\<close>

fun split :: "char \<Rightarrow> string \<Rightarrow> string list" where
  "split c [] = [[]]"
| "split c (x # xs) =
     (if x = c then [] # split c xs
      else (case split c xs of p # ps \<Rightarrow> (x # p) # ps | [] \<Rightarrow> [[x]]))"

text \<open>
  \<open>s.split(/\s+/)\<close>: the separators are the maximal runs of white space; a run at the very
  start or end leaves an empty first or last part.
\<close>

function splitWs :: "string \<Rightarrow> string list" where
  "splitWs [] = [[]]"
| "splitWs (x # xs) =
     (if isWhite x then [] # splitWs (dropWhile isWhite xs)
      else (case splitWs xs of p # ps \<Rightarrow> (x # p) # ps | [] \<Rightarrow> [[x]]))"
  by pat_completeness auto
termination
  by (relation "measure length") (auto simp: length_dropWhile_le less_Suc_eq_le)

text \<open>\<open>s.replace(/\s+/g, '_')\<close>\<close>

function replaceWs :: "string \<Rightarrow> string" where
  "replaceWs [] = []"
| "replaceWs (x # xs) =
     (if isWhite x then CHR ''_'' # replaceWs (dropWhile isWhite xs) else x # replaceWs xs)"
  by pat_completeness auto
termination
  by (relation "measure length") (auto simp: length_dropWhile_le less_Suc_eq_le)

subsection \<open>Numbers\<close>

text \<open>
  A JavaScript number is an IEEE 754 binary64 value. A finite one is the rational it
  denotes; both zeros are \<open>Fin 0\<close> (the pipeline never divides by a computed value and never
  prints the sign of a zero). \<open>fl\<close> rounds a rational to the nearest binary64 value, ties
  to the even significand, with gradual underflow and overflow to infinity.
\<close>

datatype jsnum = NaN | PInf | NInf | Fin rat

function ipow :: "rat \<Rightarrow> int \<Rightarrow> rat" where
  "ipow b e = (if e \<le> 0 then 1
               else if even e then (let h = ipow b (e div 2) in h * h)
               else b * ipow b (e - 1))"
  by pat_completeness auto
termination
  by (relation "measure (\<lambda>(b, e). nat e)") auto

declare ipow.simps [simp del]

definition pow2 :: "int \<Rightarrow> rat" where
  "pow2 e = (if 0 \<le> e then ipow 2 e else 1 / ipow 2 (- e))"

definition pow10 :: "int \<Rightarrow> rat" where
  "pow10 e = (if 0 \<le> e then ipow 10 e else 1 / ipow 10 (- e))"

text \<open>Number of binary digits of a positive integer.\<close>

function bitlen :: "int \<Rightarrow> int" where
  "bitlen n = (if n \<le> 0 then 0 else 1 + bitlen (n div 2))"
  by pat_completeness auto
termination
  by (relation "measure nat") auto

declare bitlen.simps [simp del]

text \<open>Number of decimal digits of a positive integer.\<close>

function declen :: "int \<Rightarrow> int" where
  "declen n = (if n \<le> 0 then 0 else 1 + declen (n div 10))"
  by pat_completeness auto
termination
  by (relation "measure nat") auto

declare declen.simps [simp del]

definition roundHalfEven :: "rat \<Rightarrow> int" where
  "roundHalfEven r =
     (let f = \<lfloor>r\<rfloor>; d = r - of_int f
      in if d < 1 / 2 then f else if 1 / 2 < d then f + 1 else if even f then f else f + 1)"

text \<open>For \<open>x > 0\<close>: the \<open>e\<close> with \<open>2 ^ e \<le> x < 2 ^ (e + 1)\<close>.\<close>

definition binExponent :: "rat \<Rightarrow> int" where
  "binExponent x =
     (case quotient_of x of (n, d) \<Rightarrow>
        let g = bitlen n - bitlen d in if pow2 g \<le> x then g else g - 1)"

text \<open>
  Rounding of \<open>x > 0\<close>: 53 significant bits, the spacing never below \<open>2 ^ - 1074\<close>;
  \<open>None\<close> when the rounded value reaches \<open>2 ^ 1024\<close>.
\<close>

definition roundPos :: "rat \<Rightarrow> rat option" where
  "roundPos x =
     (let q = max (binExponent x - 52) (- 1074);
          y = of_int (roundHalfEven (x / pow2 q)) * pow2 q
      in if pow2 1024 \<le> y then None else Some y)"

definition fl :: "rat \<Rightarrow> jsnum" where
  "fl x = (if x = 0 then Fin 0
           else if 0 < x then (case roundPos x of None \<Rightarrow> PInf | Some y \<Rightarrow> Fin y)
           else (case roundPos (- x) of None \<Rightarrow> NInf | Some y \<Rightarrow> Fin (- y)))"

definition isNaN :: "jsnum \<Rightarrow> bool" where
  "isNaN v = (v = NaN)"

definition isFinite :: "jsnum \<Rightarrow> bool" where
  "isFinite v = (case v of Fin x \<Rightarrow> True | _ \<Rightarrow> False)"

fun neg :: "jsnum \<Rightarrow> jsnum" where
  "neg NaN = NaN"
| "neg PInf = NInf"
| "neg NInf = PInf"
| "neg (Fin x) = Fin (- x)"

fun fabs :: "jsnum \<Rightarrow> jsnum" where
  "fabs NaN = NaN"
| "fabs PInf = PInf"
| "fabs NInf = PInf"
| "fabs (Fin x) = Fin \<bar>x\<bar>"

fun fadd :: "jsnum \<Rightarrow> jsnum \<Rightarrow> jsnum" where
  "fadd NaN b = NaN"
| "fadd a NaN = NaN"
| "fadd PInf NInf = NaN"
| "fadd NInf PInf = NaN"
| "fadd PInf b = PInf"
| "fadd NInf b = NInf"
| "fadd a PInf = PInf"
| "fadd a NInf = NInf"
| "fadd (Fin x) (Fin y) = fl (x + y)"

definition fsub :: "jsnum \<Rightarrow> jsnum \<Rightarrow> jsnum" where
  "fsub a b = fadd a (neg b)"

text \<open>Sign of a number that is not \<open>NaN\<close>: \<open>-1\<close>, \<open>0\<close> or \<open>1\<close>.\<close>

fun sgnNum :: "jsnum \<Rightarrow> int" where
  "sgnNum NaN = 0"
| "sgnNum PInf = 1"
| "sgnNum NInf = - 1"
| "sgnNum (Fin x) = (if x < 0 then - 1 else if x = 0 then 0 else 1)"

definition signedInf :: "int \<Rightarrow> jsnum" where
  "signedInf s = (if s < 0 then NInf else PInf)"

fun fmul :: "jsnum \<Rightarrow> jsnum \<Rightarrow> jsnum" where
  "fmul NaN b = NaN"
| "fmul a NaN = NaN"
| "fmul (Fin x) (Fin y) = fl (x * y)"
| "fmul a b = (if sgnNum a * sgnNum b = 0 then NaN else signedInf (sgnNum a * sgnNum b))"

text \<open>
  Division; a zero divisor is taken as \<open>+0\<close> (every divisor in the source is a non-zero
  literal).
\<close>

fun fdiv :: "jsnum \<Rightarrow> jsnum \<Rightarrow> jsnum" where
  "fdiv NaN b = NaN"
| "fdiv a NaN = NaN"
| "fdiv (Fin x) (Fin y) =
     (if y = 0 then (if x = 0 then NaN else signedInf (sgnNum (Fin x))) else fl (x / y))"
| "fdiv (Fin x) b = Fin 0"
| "fdiv a (Fin y) = signedInf (sgnNum a * (if y < 0 then - 1 else 1))"
| "fdiv a b = NaN"

text \<open>\<open>a < b\<close> on numbers; false as soon as one side is \<open>NaN\<close>. \<open>a > b\<close> is \<open>lt b a\<close>.\<close>

fun lt :: "jsnum \<Rightarrow> jsnum \<Rightarrow> bool" where
  "lt NaN b = False"
| "lt a NaN = False"
| "lt PInf b = False"
| "lt a NInf = False"
| "lt NInf b = True"
| "lt a PInf = True"
| "lt (Fin x) (Fin y) = (x < y)"

subsubsection \<open>\<open>parseFloat\<close>\<close>

definition digitVal :: "char \<Rightarrow> int" where
  "digitVal c = int (length (takeWhile (\<lambda>d. d \<noteq> c) ''0123456789''))"

definition digitsVal :: "string \<Rightarrow> int" where
  "digitsVal ds = foldl (\<lambda>a c. 10 * a + digitVal c) 0 ds"

text \<open>
  The exponent part at the start of the rest, if there is a complete one:
  \<open>e\<close> or \<open>E\<close>, an optional sign, at least one digit. Otherwise the exponent is 0.
\<close>

definition parseExponent :: "string \<Rightarrow> int" where
  "parseExponent r =
     (case r of
        [] \<Rightarrow> 0
      | c # r1 \<Rightarrow>
          if c = CHR ''e'' \<or> c = CHR ''E'' then
            (case r1 of
               [] \<Rightarrow> 0
             | s # r2 \<Rightarrow>
                 if s = CHR ''-'' then - digitsVal (takeWhile isDigit r2)
                 else if s = CHR ''+'' then digitsVal (takeWhile isDigit r2)
                 else digitsVal (takeWhile isDigit r1))
          else 0)"

text \<open>
  The longest prefix that is an unsigned decimal literal: \<open>Infinity\<close>, or digits with an
  optional fraction (one of the two digit runs may be empty, not both) and an optional
  exponent. The value is the nearest binary64 number.
\<close>

definition parseUnsigned :: "string \<Rightarrow> jsnum" where
  "parseUnsigned t =
     (if startsWith ''Infinity'' t then PInf
      else
        let ip = takeWhile isDigit t;
            r1 = dropWhile isDigit t;
            hasDot = (case r1 of [] \<Rightarrow> False | c # _ \<Rightarrow> c = CHR ''.'');
            fp = (if hasDot then takeWhile isDigit (tl r1) else []);
            r2 = (if hasDot then dropWhile isDigit (tl r1) else r1)
        in if ip = [] \<and> fp = [] then NaN
           else fl (of_int (digitsVal (ip @ fp)) * pow10 (parseExponent r2 - int (length fp))))"

definition parseFloat :: "string \<Rightarrow> jsnum" where
  "parseFloat s =
     (case dropWhile isWhite s of
        [] \<Rightarrow> NaN
      | c # r \<Rightarrow>
          if c = CHR ''-'' then neg (parseUnsigned r)
          else if c = CHR ''+'' then parseUnsigned r
          else parseUnsigned (c # r))"

subsubsection \<open>Printing numbers\<close>

definition digitChar :: "int \<Rightarrow> char" where
  "digitChar d = ''0123456789'' ! nat d"

text \<open>The decimal digits of a non-negative integer.\<close>

function digitsOf :: "int \<Rightarrow> string" where
  "digitsOf n = (if n < 10 then [digitChar n] else digitsOf (n div 10) @ [digitChar (n mod 10)])"
  by pat_completeness auto
termination
  by (relation "measure nat") auto

declare digitsOf.simps [simp del]

text \<open>For \<open>x > 0\<close>: the \<open>n\<close> with \<open>10 ^ (n - 1) \<le> x < 10 ^ n\<close>.\<close>

definition decExponent :: "rat \<Rightarrow> int" where
  "decExponent x =
     (case quotient_of x of (n, d) \<Rightarrow>
        let g = declen n - declen d in if pow10 g \<le> x then g + 1 else g)"

text \<open>
  The two \<open>k\<close>-digit decimals next to \<open>x\<close>, as pairs \<open>(s, n)\<close> denoting
  \<open>s * 10 ^ (n - k)\<close> with \<open>10 ^ (k - 1) \<le> s < 10 ^ k\<close>.
\<close>

definition lowerCand :: "rat \<Rightarrow> int \<Rightarrow> int \<times> int" where
  "lowerCand x k = (let n = decExponent x in (\<lfloor>x / pow10 (n - k)\<rfloor>, n))"

definition upperCand :: "rat \<Rightarrow> int \<Rightarrow> int \<times> int" where
  "upperCand x k =
     (let n = decExponent x; s = \<lfloor>x / pow10 (n - k)\<rfloor> + 1
      in if pow10 k \<le> of_int s then (s div 10, n + 1) else (s, n))"

definition candValue :: "int \<Rightarrow> int \<times> int \<Rightarrow> rat" where
  "candValue k c = of_int (fst c) * pow10 (snd c - k)"

text \<open>The candidate closer to \<open>x\<close>; the one with the even digit string on a tie.\<close>

definition closerCand :: "rat \<Rightarrow> int \<Rightarrow> int \<times> int" where
  "closerCand x k =
     (let lo = lowerCand x k; hi = upperCand x k;
          dl = x - candValue k lo; dh = candValue k hi - x
      in if dl < dh then lo else if dh < dl then hi else if even (fst lo) then lo else hi)"

text \<open>A \<open>k\<close>-digit decimal that reads back as the binary64 number \<open>x\<close>, if there is one.\<close>

definition tryDigits :: "rat \<Rightarrow> int \<Rightarrow> (int \<times> int) option" where
  "tryDigits x k =
     (let lo = lowerCand x k; hi = upperCand x k;
          okl = (fl (candValue k lo) = Fin x); okh = (fl (candValue k hi) = Fin x)
      in if okl \<and> okh then Some (closerCand x k)
         else if okl then Some lo
         else if okh then Some hi
         else None)"

text \<open>
  The shortest digit string that reads back as \<open>x\<close>: \<open>k = 1, 2, \<dots>\<close> in turn; 17 digits
  always suffice for a binary64 number.
\<close>

fun shortestFrom :: "nat \<Rightarrow> rat \<Rightarrow> int \<Rightarrow> (int \<times> int)" where
  "shortestFrom 0 x k = closerCand x k"
| "shortestFrom (Suc fuel) x k =
     (case tryDigits x k of Some c \<Rightarrow> c | None \<Rightarrow> shortestFrom fuel x (k + 1))"

definition shortestDigits :: "rat \<Rightarrow> int \<times> int" where
  "shortestDigits x = shortestFrom 16 x 1"

definition zeros :: "int \<Rightarrow> string" where
  "zeros n = replicate (nat n) (CHR ''0'')"

text \<open>Layout of the digits \<open>ds\<close> of a number \<open>0.ds * 10 ^ n\<close>, as \<open>Number::toString\<close> does.\<close>

definition layoutDigits :: "string \<Rightarrow> int \<Rightarrow> string" where
  "layoutDigits ds n =
     (let k = int (length ds) in
      if k \<le> n \<and> n \<le> 21 then ds @ zeros (n - k)
      else if 0 < n \<and> n \<le> 21 then take (nat n) ds @ ''.'' @ drop (nat n) ds
      else if - 6 < n \<and> n \<le> 0 then ''0.'' @ zeros (- n) @ ds
      else
        let e = n - 1; es = (if e < 0 then ''-'' else ''+'') @ digitsOf \<bar>e\<bar>
        in if k = 1 then ds @ ''e'' @ es else hd ds # ''.'' @ tl ds @ ''e'' @ es)"

definition posToString :: "rat \<Rightarrow> string" where
  "posToString x = (case shortestDigits x of (s, n) \<Rightarrow> layoutDigits (digitsOf s) n)"

text \<open>\<open>String(v)\<close> and \<open>${v}\<close> for a number.\<close>

fun numToString :: "jsnum \<Rightarrow> string" where
  "numToString NaN = ''NaN''"
| "numToString PInf = ''Infinity''"
| "numToString NInf = ''-Infinity''"
| "numToString (Fin x) =
     (if x = 0 then ''0'' else if x < 0 then ''-'' @ posToString (- x) else posToString x)"

text \<open>
  \<open>v.toFixed(f)\<close>: below \<open>10 ^ 21\<close> the integer \<open>n\<close> closest to \<open>|v| * 10 ^ f\<close> (the larger
  one on a tie) is printed with the point \<open>f\<close> digits from the right; from \<open>10 ^ 21\<close> on, and for
  a number that is not finite, the result is that of \<open>String\<close>.
\<close>

definition fixedDigits :: "nat \<Rightarrow> int \<Rightarrow> string" where
  "fixedDigits f n =
     (let m0 = digitsOf n in
      if f = 0 then m0
      else
        let m = replicate (f + 1 - length m0) (CHR ''0'') @ m0; k = length m
        in take (k - f) m @ ''.'' @ drop (k - f) m)"

fun toFixed :: "nat \<Rightarrow> jsnum \<Rightarrow> string" where
  "toFixed f (Fin x) =
     (let s = (if x < 0 then ''-'' else []); a = \<bar>x\<bar> in
      if ipow 10 21 \<le> a then s @ numToString (Fin a)
      else s @ fixedDigits f \<lfloor>a * of_int (10 ^ f) + 1 / 2\<rfloor>)"
| "toFixed f v = numToString v"

section \<open>Validator\<close>

text \<open>The compliance gate: \<open>isPayrollReady\<close>.\<close>

definition isPayrollReady :: "obj \<Rightarrow> bool" where
  "isPayrollReady record =
     (getProp record ''i9_status'' = Some ''Completed''
      \<and> getProp record ''e_verify_status'' = Some ''Authorized'')"

subsection \<open>Format predicates\<close>

definition allDigits :: "string \<Rightarrow> bool" where
  "allDigits s = list_all isDigit s"

text \<open>The pattern \<open>/^\d{4}-\d{2}-\d{2}$/\<close>.\<close>

definition datePattern :: "string \<Rightarrow> bool" where
  "datePattern s =
     (length s = 10 \<and> allDigits (take 4 s) \<and> s ! 4 = CHR ''-''
      \<and> allDigits (take 2 (drop 5 s)) \<and> s ! 7 = CHR ''-'' \<and> allDigits (drop 8 s))"

text \<open>
  \<open>!isNaN(new Date(s).getTime())\<close> for a string of that pattern, as V8 (Node.js, Chrome)
  answers it. The string has the date-only form of the ECMAScript date-time string format.
  V8 takes a month element from \<open>01\<close> to \<open>12\<close> and a day element from \<open>01\<close> to \<open>31\<close> and does
  not compare the day with the length of the month: a day beyond the end of its month is
  carried into the next month by the time-value computation, so the string still denotes a
  time (\<open>2025-02-30\<close> is March 2). Every four-digit year is in the range of time values.
\<close>

definition dateParses :: "string \<Rightarrow> bool" where
  "dateParses s =
     (let month = digitsVal (take 2 (drop 5 s)); day = digitsVal (drop 8 s)
      in 1 \<le> month \<and> month \<le> 12 \<and> 1 \<le> day \<and> day \<le> 31)"

definition isValidDate :: "string \<Rightarrow> bool" where
  "isValidDate dateString = (if \<not> datePattern dateString then False else dateParses dateString)"

text \<open>\<open>/^\d{3}-\d{2}-\d{4}$/\<close> or \<open>/^XXX-XX-\d{4}$/\<close>\<close>

definition isValidSSN :: "string \<Rightarrow> bool" where
  "isValidSSN ssn =
     ((length ssn = 11 \<and> allDigits (take 3 ssn) \<and> ssn ! 3 = CHR ''-''
        \<and> allDigits (take 2 (drop 4 ssn)) \<and> ssn ! 6 = CHR ''-'' \<and> allDigits (drop 7 ssn))
      \<or> (length ssn = 11 \<and> take 7 ssn = ''XXX-XX-'' \<and> allDigits (drop 7 ssn)))"

text \<open>
  \<open>/^[^\s@]+@[^\s@]+\.[^\s@]+$/\<close>: no white space, exactly one \<open>@\<close> with something before
  it, and after it a dot that is neither the first nor the last character.
\<close>

definition isValidEmail :: "string \<Rightarrow> bool" where
  "isValidEmail email =
     (let local = takeWhile (\<lambda>c. c \<noteq> CHR ''@'') email;
          rest = dropWhile (\<lambda>c. c \<noteq> CHR ''@'') email;
          domain = tl rest
      in \<not> list_ex isWhite email \<and> local \<noteq> [] \<and> rest \<noteq> []
         \<and> \<not> list_ex (\<lambda>c. c = CHR ''@'') domain
         \<and> list_ex (\<lambda>c. c = CHR ''.'') (butlast (tl domain)))"

definition isNumeric :: "string \<Rightarrow> bool" where
  "isNumeric v = (\<not> isNaN (parseFloat v) \<and> isFinite (parseFloat v))"

text \<open>\<open>/^\d{9}$/\<close>\<close>

definition isValidRoutingNumber :: "string \<Rightarrow> bool" where
  "isValidRoutingNumber routing = (length routing = 9 \<and> allDigits routing)"

text \<open>\<open>/^\d{5}(-\d{4})?$/\<close>\<close>

definition isValidZip :: "string \<Rightarrow> bool" where
  "isValidZip z =
     ((length z = 5 \<and> allDigits z)
      \<or> (length z = 10 \<and> allDigits (take 5 z) \<and> z ! 5 = CHR ''-'' \<and> allDigits (drop 6 z)))"

text \<open>\<open>/^[A-Z]{2}$/\<close> on the upper-cased string.\<close>

definition isValidStateCode :: "string \<Rightarrow> bool" where
  "isValidStateCode state =
     (let u = toUpperCase state
      in length u = 2 \<and> list_all (\<lambda>c. 65 \<le> c \<and> c \<le> 90) u)"

subsection \<open>Errors\<close>

datatype errorType =
  PARSE_ERROR | VALIDATION_ERROR | REQUIRED_FIELD_MISSING | INVALID_FORMAT
  | BUSINESS_LOGIC_ERROR | COMPLIANCE_GATE_FAILED

record processingError =
  id_err :: string
  rowId :: string
  row :: nat
  field :: string
  columnIndex :: "nat option"
  value_err :: string
  errorType :: errorType
  message :: string
  suggestedFix :: "string option"
  timestamp :: string

text \<open>
  \<open>generateErrorId()\<close> draws on the clock and on \<open>Math.random\<close>, the time stamp on the clock.
  Both are given from outside: \<open>stamps k\<close> is the identifier and the time stamp of the
  object that is pushed at position \<open>k\<close> of the array it goes to.
\<close>

type_synonym stamps = "nat \<Rightarrow> string \<times> string"

definition apos :: string where
  "apos = [CHR 0x27]"

definition REQUIRED_DET_FIELDS :: "string list" where
  "REQUIRED_DET_FIELDS = [''record_type'', ''record_sequence'', ''company_id'']"

definition REQUIRED_EMPLOYEE_FIELDS :: "string list" where
  "REQUIRED_EMPLOYEE_FIELDS =
     [''employee_id'', ''first_name'', ''last_name'', ''dob'', ''ssn'', ''home_street'',
      ''home_city'', ''home_state'', ''home_zip'', ''hire_date'', ''job_title'',
      ''flsa_status'', ''annual_salary'', ''pay_frequency'', ''fed_status'',
      ''fed_allowances'', ''fed_extra_wh_per_paycheck'', ''state_code'',
      ''state_extra_wh_per_paycheck'', ''i9_status'', ''e_verify_status'',
      ''dd1_routing_number'', ''dd1_account_number'', ''dd1_account_type'',
      ''dd1_split_type'', ''dd1_split_value'']"

text \<open>\<open>a || b\<close> where \<open>a\<close> is a property value and \<open>b\<close> a string.\<close>

definition orElse :: "string option \<Rightarrow> string \<Rightarrow> string" where
  "orElse v d = (if truthy v then orEmpty v else d)"

fun indexOf :: "string list \<Rightarrow> string \<Rightarrow> nat option" where
  "indexOf [] x = None"
| "indexOf (y # ys) x = (if y = x then Some 0 else map_option Suc (indexOf ys x))"

definition getColumnIndex :: "string list option \<Rightarrow> string \<Rightarrow> nat option" where
  "getColumnIndex headerFields fieldName =
     (case headerFields of
        None \<Rightarrow> None
      | Some hs \<Rightarrow> if hs = [] then None else indexOf hs fieldName)"

text \<open>
  An error constructor takes the array built so far (the new object goes to its end), then
  field, value, error type, message and suggested fix.
\<close>

type_synonym mkError =
  "processingError list \<Rightarrow> string \<Rightarrow> string \<Rightarrow> errorType \<Rightarrow> string \<Rightarrow> string \<Rightarrow> processingError"

text \<open>\<open>createError\<close> of \<open>validateEmployeeRecord\<close>.\<close>

definition createError :: "stamps \<Rightarrow> string \<Rightarrow> nat \<Rightarrow> string list option \<Rightarrow> mkError" where
  "createError gen rid rowIndex headerFields errors fld val ty msg fix =
     \<lparr> id_err = fst (gen (length errors)), rowId = rid, row = rowIndex + 1, field = fld,
       columnIndex = getColumnIndex headerFields fld, value_err = val, errorType = ty,
       message = msg, suggestedFix = Some fix, timestamp = snd (gen (length errors)) \<rparr>"

text \<open>The object literals of \<open>validateDETRecord\<close>: no column index.\<close>

definition detError :: "stamps \<Rightarrow> string \<Rightarrow> nat \<Rightarrow> mkError" where
  "detError gen rid rowIndex errors fld val ty msg fix =
     \<lparr> id_err = fst (gen (length errors)), rowId = rid, row = rowIndex + 1, field = fld,
       columnIndex = None, value_err = val, errorType = ty,
       message = msg, suggestedFix = Some fix, timestamp = snd (gen (length errors)) \<rparr>"

text \<open>\<open>if (c) errors.push(e)\<close>\<close>

definition pushIf :: "bool \<Rightarrow> ('e list \<Rightarrow> 'e) \<Rightarrow> 'e list \<Rightarrow> 'e list" where
  "pushIf c mk errors = (if c then errors @ [mk errors] else errors)"

subsection \<open>The checks\<close>

text \<open>One round of the loop over \<open>REQUIRED_EMPLOYEE_FIELDS\<close>.\<close>

definition requiredEmployeeCheck :: "mkError \<Rightarrow> obj \<Rightarrow> string \<Rightarrow> processingError list \<Rightarrow> processingError list" where
  "requiredEmployeeCheck err record fld errors =
     (let v = getProp record fld in
      pushIf (\<not> truthy v \<or> trim (orEmpty v) = [])
        (\<lambda>es. err es fld [] REQUIRED_FIELD_MISSING
           (''Required employee field '' @ apos @ fld @ apos @ '' is missing or empty'')
           (''Please provide a value for '' @ fld))
        errors)"

text \<open>One round of the loop over \<open>REQUIRED_DET_FIELDS\<close>.\<close>

definition requiredDETCheck :: "mkError \<Rightarrow> obj \<Rightarrow> string \<Rightarrow> processingError list \<Rightarrow> processingError list" where
  "requiredDETCheck err record fld errors =
     (let v = getProp record fld in
      pushIf (\<not> truthy v \<or> trim (orEmpty v) = [])
        (\<lambda>es. err es fld [] REQUIRED_FIELD_MISSING
           (''Required DET field '' @ apos @ fld @ apos @ '' is missing or empty'')
           (''Please provide a value for '' @ fld))
        errors)"

text \<open>
  The shape of every single-field format check:
  \<open>if (record.f && !ok(record.f)) errors.push(\<dots> f, record.f, 'INVALID_FORMAT', msg + record.f, fix)\<close>.
\<close>

definition formatCheck ::
  "mkError \<Rightarrow> obj \<Rightarrow> string \<Rightarrow> (string \<Rightarrow> bool) \<Rightarrow> string \<Rightarrow> string \<Rightarrow> processingError list \<Rightarrow> processingError list" where
  "formatCheck err record fld ok msg fix errors =
     (let v = getProp record fld in
      pushIf (truthy v \<and> \<not> ok (orEmpty v))
        (\<lambda>es. err es fld (orEmpty v) INVALID_FORMAT (msg @ orEmpty v) fix)
        errors)"

definition validPayFrequencies :: "string list" where
  "validPayFrequencies = [''Weekly'', ''Bi-weekly'', ''Semi-monthly'', ''Monthly'']"

text \<open>
  The single-field format checks, from the date of birth to the pay frequency. They stand
  in \<open>validateDETRecord\<close> and in \<open>validateEmployeeRecord\<close> in the same order, with the same
  conditions and the same texts; only the error constructor differs.
\<close>

definition formatChecks :: "mkError \<Rightarrow> obj \<Rightarrow> (processingError list \<Rightarrow> processingError list) list" where
  \<open>formatChecks err record =
     [formatCheck err record ''dob'' isValidDate
        ''Date of birth must be in YYYY-MM-DD format, got: ''
        ''Format as YYYY-MM-DD (e.g., 1990-05-15)'',
      formatCheck err record ''hire_date'' isValidDate
        ''Hire date must be in YYYY-MM-DD format, got: ''
        ''Format as YYYY-MM-DD (e.g., 2025-11-01)'',
      formatCheck err record ''ssn'' isValidSSN
        ''SSN must be in XXX-XX-XXXX format, got: ''
        ''Format as XXX-XX-XXXX'',
      formatCheck err record ''manager_email'' isValidEmail
        ''Invalid email format: ''
        ''Please provide a valid email address'',
      formatCheck err record ''home_state'' isValidStateCode
        ''State code must be 2 letters, got: ''
        ''Use 2-letter state code (e.g., SC, GA, NC)'',
      formatCheck err record ''work_state'' isValidStateCode
        ''State code must be 2 letters, got: ''
        ''Use 2-letter state code (e.g., SC, GA, NC)'',
      formatCheck err record ''home_zip'' isValidZip
        ''ZIP code must be 5 or 9 digits, got: ''
        ''Format as 12345 or 12345-6789'',
      formatCheck err record ''work_zip'' isValidZip
        ''ZIP code must be 5 or 9 digits, got: ''
        ''Format as 12345 or 12345-6789'',
      formatCheck err record ''dd1_routing_number'' isValidRoutingNumber
        ''Routing number must be 9 digits, got: ''
        ''Provide a 9-digit routing number'',
      formatCheck err record ''dd2_routing_number''
        (\<lambda>v. \<not> (trim v \<noteq> [] \<and> \<not> isValidRoutingNumber v))
        ''Routing number must be 9 digits, got: ''
        ''Provide a 9-digit routing number or leave empty'',
      formatCheck err record ''annual_salary'' isNumeric
        ''Annual salary must be numeric, got: ''
        ''Provide a numeric value (e.g., 120000)'',
      formatCheck err record ''flsa_status'' (\<lambda>v. v \<in> set [''Exempt'', ''Non-Exempt''])
        (''FLSA status must be '' @ apos @ ''Exempt'' @ apos @ '' or '' @ apos @ ''Non-Exempt''
           @ apos @ '', got: '')
        ''Use "Exempt" or "Non-Exempt"'',
      formatCheck err record ''pay_frequency'' (\<lambda>v. v \<in> set validPayFrequencies)
        (''Pay frequency must be one of: '' @ join '', '' validPayFrequencies @ '', got: '')
        (''Use one of: '' @ join '', '' validPayFrequencies)]\<close>

text \<open>The business rule on the direct-deposit split percentages.\<close>

definition splitRangeError :: "mkError \<Rightarrow> string \<Rightarrow> processingError list \<Rightarrow> processingError" where
  "splitRangeError err v1 es =
     err es ''dd1_split_value'' v1 BUSINESS_LOGIC_ERROR
       (''Split percentage must be between 0 and 100, got: '' @ v1)
       ''Provide a percentage between 0 and 100''"

definition splitSumError :: "mkError \<Rightarrow> string \<Rightarrow> string \<Rightarrow> jsnum \<Rightarrow> processingError list \<Rightarrow> processingError" where
  "splitSumError err v1 v2 tot es =
     err es ''dd1_split_value'' (v1 @ '' + '' @ v2) BUSINESS_LOGIC_ERROR
       (''Direct deposit split percentages must sum to 100%, got: '' @ numToString tot @ ''%'')
       ''Adjust split values so they sum to 100%''"

text \<open>\<open>Math.abs(total - 100) > 0.01\<close>\<close>

definition offHundred :: "jsnum \<Rightarrow> bool" where
  "offHundred tot = lt (fl (1 / 100)) (fabs (fsub tot (Fin 100)))"

definition splitChecks :: "mkError \<Rightarrow> obj \<Rightarrow> processingError list \<Rightarrow> processingError list" where
  "splitChecks err record errors =
     (let v1 = getProp record ''dd1_split_value''; v2 = getProp record ''dd2_split_value'' in
      if getProp record ''dd1_split_type'' = Some ''Percent'' \<and> truthy v1 then
        let percent = parseFloat (orEmpty v1);
            errors1 = pushIf (isNaN percent \<or> lt percent (Fin 0) \<or> lt (Fin 100) percent)
                        (splitRangeError err (orEmpty v1)) errors
        in if getProp record ''dd2_split_type'' = Some ''Percent'' \<and> truthy v2 then
             let dd2Percent = parseFloat (orEmpty v2) in
             if \<not> isNaN dd2Percent \<and> \<not> isNaN percent then
               let tot = fadd percent dd2Percent in
               pushIf (offHundred tot) (splitSumError err (orEmpty v1) (orEmpty v2) tot) errors1
             else errors1
           else errors1
      else errors)"

text \<open>Running checks one after the other on the growing array.\<close>

definition runChecks :: "('e list \<Rightarrow> 'e list) list \<Rightarrow> 'e list \<Rightarrow> 'e list" where
  "runChecks checks errors = foldl (\<lambda>es check. check es) errors checks"

definition rowLabel :: "nat \<Rightarrow> string" where
  "rowLabel rowIndex = ''row_'' @ digitsOf (int rowIndex)"

subsection \<open>\<open>validateDETRecord\<close>\<close>

definition recordTypeCheck :: "mkError \<Rightarrow> obj \<Rightarrow> processingError list \<Rightarrow> processingError list" where
  "recordTypeCheck err record errors =
     (let v = getProp record ''record_type'' in
      pushIf (v \<noteq> Some ''DET'')
        (\<lambda>es. err es ''record_type'' (orEmpty v) INVALID_FORMAT
           (''Expected record_type '' @ apos @ ''DET'' @ apos @ '', got '' @ apos @ toStr v @ apos)
           (''Set record_type to '' @ apos @ ''DET'' @ apos @ '' for detail records''))
        errors)"

definition validateDETRecord :: "stamps \<Rightarrow> obj \<Rightarrow> nat \<Rightarrow> processingError list" where
  "validateDETRecord gen record rowIndex =
     (let rid = orElse (getProp record ''employee_id'')
                  (orElse (getProp record ''record_sequence'') (rowLabel rowIndex));
          err = detError gen rid rowIndex
      in runChecks
           ([recordTypeCheck err record]
            @ map (requiredDETCheck err record) REQUIRED_DET_FIELDS
            @ [formatCheck err record ''record_sequence'' isNumeric
                 ''Record sequence must be numeric, got: ''
                 ''Provide a numeric sequence number'']
            @ map (requiredEmployeeCheck err record) REQUIRED_EMPLOYEE_FIELDS
            @ formatChecks err record
            @ [splitChecks err record])
           [])"

subsection \<open>\<open>validateEmployeeRecord\<close>\<close>

definition validateEmployeeRecord ::
  "stamps \<Rightarrow> obj \<Rightarrow> nat \<Rightarrow> string list option \<Rightarrow> processingError list" where
  "validateEmployeeRecord gen record rowIndex headerFields =
     (let rid = orElse (getProp record ''employee_id'') (rowLabel rowIndex);
          err = createError gen rid rowIndex headerFields
      in runChecks
           (map (requiredEmployeeCheck err record) REQUIRED_EMPLOYEE_FIELDS
            @ formatChecks err record
            @ [splitChecks err record])
           [])"

subsection \<open>Reading the result of a validation\<close>

text \<open>
  The part of an error that does not depend on the clock or on the random source: field,
  value, error type and message.
\<close>

definition core :: "processingError \<Rightarrow> string \<times> string \<times> errorType \<times> string" where
  "core e = (field e, value_err e, errorType e, message e)"

text \<open>An \<open>INVALID_FORMAT\<close> error on the field \<open>F\<close>.\<close>

definition isFmt :: "string \<Rightarrow> string \<times> string \<times> errorType \<times> string \<Rightarrow> bool" where
  "isFmt F c = (fst c = F \<and> fst (snd (snd c)) = INVALID_FORMAT)"

text \<open>A \<open>BUSINESS_LOGIC_ERROR\<close>.\<close>

definition isBusiness :: "string \<times> string \<times> errorType \<times> string \<Rightarrow> bool" where
  "isBusiness c = (fst (snd (snd c)) = BUSINESS_LOGIC_ERROR)"

text \<open>
  A check is additive when it only appends to the array and what it appends does not
  depend, up to identifiers and time stamps, on what the array holds.
\<close>

definition additive :: "(processingError list \<Rightarrow> processingError list) \<Rightarrow> bool" where
  "additive c = (\<forall>es. map core (c es) = map core es @ map core (c []))"

subsection \<open>Calendar dates, as the specification words them\<close>

text \<open>
  The specification asks a date to match the 4-2-2 digit pattern and to be a
  calendar-valid date: a month from 1 to 12 and a day that exists in that month of that
  year (Gregorian leap years).
\<close>

definition isLeapYear :: "int \<Rightarrow> bool" where
  "isLeapYear y = (y mod 4 = 0 \<and> (y mod 100 \<noteq> 0 \<or> y mod 400 = 0))"

definition daysInMonth :: "int \<Rightarrow> int \<Rightarrow> int" where
  "daysInMonth y m =
     (if m = 2 then (if isLeapYear y then 29 else 28)
      else if m = 4 \<or> m = 6 \<or> m = 9 \<or> m = 11 then 30 else 31)"

definition calendarValidDate :: "string \<Rightarrow> bool" where
  "calendarValidDate s =
     (datePattern s \<and>
      (let y = digitsVal (take 4 s); m = digitsVal (take 2 (drop 5 s)); d = digitsVal (drop 8 s)
       in 1 \<le> m \<and> m \<le> 12 \<and> 1 \<le> d \<and> d \<le> daysInMonth y m))"

subsection \<open>Sample inputs\<close>

text \<open>An employee record that passes every check, and a source of identifiers and time stamps.\<close>

definition validEmployee :: obj where
  "validEmployee =
     [(''employee_id'', ''E001''), (''first_name'', ''Ann''), (''last_name'', ''Lee''),
      (''dob'', ''1990-05-15''), (''ssn'', ''123-45-6789''), (''home_street'', ''1 Main St''),
      (''home_city'', ''Hanahan''), (''home_state'', ''SC''), (''home_zip'', ''29410''),
      (''hire_date'', ''2025-11-01''), (''job_title'', ''Engineer''),
      (''flsa_status'', ''Exempt''), (''annual_salary'', ''120000''),
      (''pay_frequency'', ''Bi-weekly''), (''fed_status'', ''Single''),
      (''fed_allowances'', ''1''), (''fed_extra_wh_per_paycheck'', ''0''),
      (''state_code'', ''SC''), (''state_extra_wh_per_paycheck'', ''0''),
      (''i9_status'', ''Completed''), (''e_verify_status'', ''Authorized''),
      (''dd1_routing_number'', ''123456789''), (''dd1_account_number'', ''000111''),
      (''dd1_account_type'', ''Checking''), (''dd1_split_type'', ''Percent''),
      (''dd1_split_value'', ''100'')]"

definition sampleStamps :: stamps where
  "sampleStamps k = (''error_'' @ digitsOf (int k), ''2025-11-01T00:00:00.000Z'')"

text \<open>The same employee as a detail record, with its three tracking fields.\<close>

definition validDetail :: obj where
  "validDetail =
     [(''record_type'', ''DET''), (''record_sequence'', ''1''), (''company_id'', ''C01'')]
     @ validEmployee"


text \<open>Scenario A: the valid employee with split values 60 and 45, both \<open>Percent\<close>.\<close>

definition splitScenario :: obj where
  "splitScenario =
     assign ''dd2_split_value'' ''45'' (assign ''dd2_split_type'' ''Percent''
       (assign ''dd1_split_value'' ''60'' validEmployee))"


section \<open>Default mappings\<close>

text \<open>
  A field mapping names a source field and a target field; its two optional members are
  never read by the transformer. A transformation takes the mapped source value and the
  whole record. The transformation table is the list of its entries in insertion order.

  A transformation hands back a string, with one exception: a status table is an object
  literal that is read at the status itself, \<open>table[value]\<close>, and a status that is the name
  of a member of \<open>Object.prototype\<close> finds that member (a function, and for \<open>__proto__\<close> the
  prototype object), which is truthy and so is what the transformation returns. The
  output record holds it as it is.
\<close>

datatype jsval = Str string | Inherited string

type_synonym outRecord = "(string \<times> jsval) list"

text \<open>Truthiness of a property of an output record.\<close>

definition truthyVal :: "jsval option \<Rightarrow> bool" where
  "truthyVal v = (case v of None \<Rightarrow> False | Some (Str s) \<Rightarrow> s \<noteq> [] | Some (Inherited k) \<Rightarrow> True)"

text \<open>A transformation that returns a string.\<close>

definition asStr :: "(string \<Rightarrow> obj \<Rightarrow> string) \<Rightarrow> string \<Rightarrow> obj \<Rightarrow> jsval" where
  "asStr f v record = Str (f v record)"

text \<open>The names of the members of \<open>Object.prototype\<close>.\<close>

definition objectPrototypeMembers :: "string list" where
  "objectPrototypeMembers =
     [''constructor'', ''__defineGetter__'', ''__defineSetter__'', ''hasOwnProperty'',
      ''__lookupGetter__'', ''__lookupSetter__'', ''isPrototypeOf'', ''propertyIsEnumerable'',
      ''toString'', ''valueOf'', ''__proto__'', ''toLocaleString'']"

record fieldMapping =
  sourceField :: string
  targetField :: string
  transformation :: "string option"
  defaultValue :: "string option"

datatype providerName = ADP | QuickBooks

record providerMapping =
  provider :: providerName
  fieldMappings :: "fieldMapping list"
  transformations :: "(string \<times> (string \<Rightarrow> obj \<Rightarrow> jsval)) list"

definition fm :: "string \<Rightarrow> string \<Rightarrow> fieldMapping" where
  "fm s t = \<lparr> sourceField = s, targetField = t, transformation = None, defaultValue = None \<rparr>"

definition calculatePerPaycheckRate :: "string option \<Rightarrow> string option \<Rightarrow> jsnum" where
  "calculatePerPaycheckRate annualSalary payFrequency =
     (let salary = parseFloat (toStr annualSalary) in
      if isNaN salary then Fin 0
      else if payFrequency = Some ''Weekly'' then fdiv salary (Fin 52)
      else if payFrequency = Some ''Bi-weekly'' then fdiv salary (Fin 26)
      else if payFrequency = Some ''Semi-monthly'' then fdiv salary (Fin 24)
      else if payFrequency = Some ''Monthly'' then fdiv salary (Fin 12)
      else fdiv salary (Fin 26))"

text \<open>
  \<open>table[value] || fallback\<close> for an object literal \<open>table\<close>: an own property if there is
  one, else an inherited member, else \<open>undefined\<close>; a falsy result gives way to the fallback.
\<close>

definition lookupOr :: "(string \<times> string) list \<Rightarrow> string \<Rightarrow> string \<Rightarrow> jsval" where
  "lookupOr table v fallback =
     (case map_of table v of
        Some s \<Rightarrow> if s \<noteq> [] then Str s else Str fallback
      | None \<Rightarrow> if v \<in> set objectPrototypeMembers then Inherited v else Str fallback)"

text \<open>The transformations \<open>PayRate\<close> (ADP) and \<open>Pay Rate ($)\<close> (QuickBooks).\<close>

definition payRate :: "string \<Rightarrow> obj \<Rightarrow> string" where
  "payRate v record =
     toFixed 2 (calculatePerPaycheckRate (getProp record ''annual_salary'')
                  (getProp record ''pay_frequency''))"

text \<open>
  The retirement amount per paycheck, when plan type, salary and contribution percent are
  all non-empty: \<open>(perPaycheck * (parseFloat(percent) / 100)).toFixed(2)\<close>.
\<close>

definition retirementAmount :: "obj \<Rightarrow> string" where
  "retirementAmount record =
     (let perPaycheck = calculatePerPaycheckRate (getProp record ''annual_salary'')
                          (getProp record ''pay_frequency'');
          contributionPercent =
            fdiv (parseFloat (toStr (getProp record ''retirement_contribution_percent''))) (Fin 100)
      in toFixed 2 (fmul perPaycheck contributionPercent))"

definition hasRetirement :: "obj \<Rightarrow> bool" where
  "hasRetirement record =
     (truthy (getProp record ''retirement_plan_type'') \<and> truthy (getProp record ''annual_salary'')
      \<and> truthy (getProp record ''retirement_contribution_percent''))"

text \<open>\<open>record.retirement_loan_repayment && parseFloat(record.retirement_loan_repayment) > 0\<close>\<close>

definition hasLoan :: "obj \<Rightarrow> bool" where
  "hasLoan record =
     (truthy (getProp record ''retirement_loan_repayment'')
      \<and> lt (Fin 0) (parseFloat (toStr (getProp record ''retirement_loan_repayment''))))"

definition adpMapping :: providerMapping where
  "adpMapping =
     \<lparr> provider = ADP,
       fieldMappings =
         [fm ''employee_id'' ''Employee No'',
          fm ''ssn'' ''SSN'',
          fm ''first_name'' ''FName'',
          fm ''last_name'' ''LName'',
          fm ''dob'' ''DOB'',
          fm ''home_street'' ''Home_Addr1'',
          fm ''home_city'' ''Home_City'',
          fm ''home_state'' ''Home_State'',
          fm ''home_zip'' ''Home_Zip'',
          fm ''work_street'' ''Work_Addr1'',
          fm ''work_city'' ''Work_City'',
          fm ''work_state'' ''Work_State'',
          fm ''work_zip'' ''Work_Zip'',
          fm ''hire_date'' ''HiredDate'',
          fm ''job_title'' ''JobTitle'',
          fm ''department'' ''Dept'',
          fm ''flsa_status'' ''FLSA_Status'',
          fm ''pay_frequency'' ''PayFreq'',
          fm ''fed_status'' ''Fed_W4_Status'',
          fm ''fed_allowances'' ''Fed_W4_Allow'',
          fm ''fed_extra_wh_per_paycheck'' ''Fed_W4_Extra'',
          fm ''state_code'' ''State_Tax_Code'',
          fm ''state_extra_wh_per_paycheck'' ''State_Extra_WH'',
          fm ''local_tax_code_1'' ''Local_Tax_Code_1'',
          fm ''dd1_routing_number'' ''DD1_Routing'',
          fm ''dd1_account_number'' ''DD1_Acct'',
          fm ''dd1_account_type'' ''DD1_Type'',
          fm ''dd1_split_type'' ''DD1_SplitType'',
          fm ''dd1_split_value'' ''DD1_SplitValue'',
          fm ''dd2_routing_number'' ''DD2_Routing'',
          fm ''dd2_account_number'' ''DD2_Acct'',
          fm ''dd2_account_type'' ''DD2_Type''],
       transformations =
         [(''Fed_W4_Status'', \<lambda>v record.
             lookupOr [(''Single'', ''S''), (''Married'', ''M''),
                       (''Married Filing Separately'', ''MFS''),
                       (''Head of Household'', ''HOH'')] v v),
          (''PayRate'', asStr payRate),
          (''Deduct_Code_1'', asStr (\<lambda>v record. orEmpty (getProp record ''health_plan_name''))),
          (''Deduct_Amt_1'', asStr (\<lambda>v record.
             orElse (getProp record ''health_deduction_per_paycheck'') ''0.00'')),
          (''Deduct_Code_2'', asStr (\<lambda>v record. orEmpty (getProp record ''retirement_plan_type''))),
          (''Deduct_Amt_2'', asStr (\<lambda>v record.
             if hasRetirement record then retirementAmount record else ''0.00'')),
          (''Deduct_Code_3'', asStr (\<lambda>v record. if hasLoan record then ''401k Loan'' else [])),
          (''Deduct_Amt_3'', asStr (\<lambda>v record.
             orElse (getProp record ''retirement_loan_repayment'') ''0.00'')),
          (''Deduct_Code_4'', asStr (\<lambda>v record. orEmpty (getProp record ''garnishment_type''))),
          (''Deduct_Amt_4'', asStr (\<lambda>v record.
             orElse (getProp record ''garnishment_amount_per_paycheck'') ''0.00''))] \<rparr>"

text \<open>\<open>`${a}, ${b}, ${c} ${d}`.trim()\<close> on four fields of the record.\<close>

definition addressLine :: "obj \<Rightarrow> string \<Rightarrow> string \<Rightarrow> string \<Rightarrow> string \<Rightarrow> string" where
  "addressLine record a b c d =
     trim (toStr (getProp record a) @ '', '' @ toStr (getProp record b) @ '', ''
           @ toStr (getProp record c) @ '' '' @ toStr (getProp record d))"

definition quickBooksMapping :: providerMapping where
  "quickBooksMapping =
     \<lparr> provider = QuickBooks,
       fieldMappings =
         [fm ''employee_id'' ''Employee #'',
          fm ''ssn'' ''SSN'',
          fm ''dob'' ''Date of Birth'',
          fm ''hire_date'' ''Hire Date'',
          fm ''job_title'' ''Job Title'',
          fm ''department'' ''Department'',
          fm ''flsa_status'' ''FLSA Status'',
          fm ''pay_frequency'' ''Per'',
          fm ''fed_status'' ''Federal Filing Status'',
          fm ''fed_allowances'' ''Federal Allowances'',
          fm ''fed_extra_wh_per_paycheck'' ''Federal Extra Withholding'',
          fm ''state_code'' ''State Tax (Work)'',
          fm ''state_extra_wh_per_paycheck'' ''State Extra Withholding'',
          fm ''local_tax_code_1'' ''Local Tax'',
          fm ''i9_status'' ''I-9 Status'',
          fm ''e_verify_status'' ''E-Verify Status'',
          fm ''gender'' ''EEO Gender'',
          fm ''ethnicity'' ''EEO Ethnicity''],
       transformations =
         [(''Full Name'', asStr (\<lambda>v record.
             trim (toStr (getProp record ''first_name'') @ '' ''
                   @ toStr (getProp record ''last_name'')))),
          (''Home Address'', asStr (\<lambda>v record.
             addressLine record ''home_street'' ''home_city'' ''home_state'' ''home_zip'')),
          (''Work Location'', asStr (\<lambda>v record.
             addressLine record ''work_street'' ''work_city'' ''work_state'' ''work_zip'')),
          (''Pay Rate ($)'', asStr payRate),
          (''Federal Filing Status'', \<lambda>v record.
             lookupOr [(''Single'', ''single''), (''Married'', ''married_filing_jointly''),
                       (''Married Filing Separately'', ''married_filing_separately''),
                       (''Head of Household'', ''head_of_household'')] v
               (replaceWs (toLowerCase v))),
          (''Direct Deposit 1'', asStr (\<lambda>v record.
             if truthy (getProp record ''dd1_routing_number'')
                \<and> truthy (getProp record ''dd1_account_number'')
                \<and> truthy (getProp record ''dd1_account_type'')
             then
               (let splitInfo =
                  (if getProp record ''dd1_split_type'' = Some ''Percent''
                   then toStr (getProp record ''dd1_split_value'') @ ''%''
                   else ''$'' @ toStr (getProp record ''dd1_split_value''))
                in toStr (getProp record ''dd1_routing_number'') @ ''-''
                   @ toStr (getProp record ''dd1_account_number'') @ ''-''
                   @ toStr (getProp record ''dd1_account_type'') @ ''-'' @ splitInfo)
             else [])),
          (''Direct Deposit 2'', asStr (\<lambda>v record.
             if truthy (getProp record ''dd2_routing_number'')
                \<and> truthy (getProp record ''dd2_account_number'')
                \<and> truthy (getProp record ''dd2_account_type'')
             then toStr (getProp record ''dd2_routing_number'') @ ''-''
                  @ toStr (getProp record ''dd2_account_number'') @ ''-''
                  @ toStr (getProp record ''dd2_account_type'')
             else [])),
          (''Health Deduction'', asStr (\<lambda>v record.
             if truthy (getProp record ''health_plan_name'')
                \<and> truthy (getProp record ''health_deduction_per_paycheck'')
             then toStr (getProp record ''health_plan_name'') @ '' - ''
                  @ toStr (getProp record ''health_deduction_per_paycheck'')
             else [])),
          (''Retirement Deduction'', asStr (\<lambda>v record.
             if hasRetirement record
             then toStr (getProp record ''retirement_plan_type'') @ '' - ''
                  @ toStr (getProp record ''retirement_contribution_percent'')
                  @ ''% ($'' @ retirementAmount record @ '')''
             else [])),
          (''Retirement Loan'', asStr (\<lambda>v record.
             if hasLoan record then ''$'' @ toStr (getProp record ''retirement_loan_repayment'')
             else [])),
          (''Garnishment'', asStr (\<lambda>v record.
             if truthy (getProp record ''garnishment_type'')
                \<and> truthy (getProp record ''garnishment_amount_per_paycheck'')
             then toStr (getProp record ''garnishment_type'') @ '' - $''
                  @ toStr (getProp record ''garnishment_amount_per_paycheck'')
             else []))] \<rparr>"

section \<open>Transformer\<close>

text \<open>
  \<open>getProviderMapping\<close>: the custom mapping stored for the provider if there is one that
  parses (\<open>Some\<close>), else the default.
\<close>

definition getProviderMapping :: "providerMapping option \<Rightarrow> providerName \<Rightarrow> providerMapping" where
  "getProviderMapping stored p =
     (case stored of
        Some m \<Rightarrow> m
      | None \<Rightarrow> if p = ADP then adpMapping else quickBooksMapping)"

text \<open>
  The first loop, over the declared pairs: the target gets the transformation of the
  stringified source value if the table has an entry for the target, else that value.
\<close>

fun firstPass :: "providerMapping \<Rightarrow> obj \<Rightarrow> fieldMapping list \<Rightarrow> outRecord \<Rightarrow> outRecord" where
  "firstPass mapping employee [] out = out"
| "firstPass mapping employee (fieldMapping # rest) out =
     (let sourceValue = getProp employee (sourceField fieldMapping);
          target = targetField fieldMapping
      in firstPass mapping employee rest
           (assign target
              (case map_of (transformations mapping) target of
                 Some transformFn \<Rightarrow> transformFn (orEmpty sourceValue) employee
               | None \<Rightarrow> Str (orEmpty sourceValue))
              out))"

text \<open>
  The second loop, over the entries of the transformation table: an entry whose target is
  falsy in the output so far (absent or empty) is called with the empty string.
\<close>

fun secondPass :: "obj \<Rightarrow> (string \<times> (string \<Rightarrow> obj \<Rightarrow> jsval)) list \<Rightarrow> outRecord \<Rightarrow> outRecord" where
  "secondPass employee [] out = out"
| "secondPass employee ((target, transformFn) # rest) out =
     secondPass employee rest
       (if \<not> truthyVal (getProp out target) then assign target (transformFn [] employee) out
        else out)"

text \<open>The targets whose transformation the second loop calls, in order.\<close>

fun secondPassCalls :: "obj \<Rightarrow> (string \<times> (string \<Rightarrow> obj \<Rightarrow> jsval)) list \<Rightarrow> outRecord \<Rightarrow> string list" where
  "secondPassCalls employee [] out = []"
| "secondPassCalls employee ((target, transformFn) # rest) out =
     (if \<not> truthyVal (getProp out target)
      then target # secondPassCalls employee rest (assign target (transformFn [] employee) out)
      else secondPassCalls employee rest out)"

text \<open>The body shared, word for word, by \<open>transformToADP\<close> and \<open>transformToQuickBooks\<close>.\<close>

definition applyMapping :: "providerMapping \<Rightarrow> obj \<Rightarrow> outRecord" where
  "applyMapping mapping employee =
     secondPass employee (transformations mapping)
       (firstPass mapping employee (fieldMappings mapping) [])"

definition transformToADP :: "providerMapping option \<Rightarrow> obj \<Rightarrow> outRecord" where
  "transformToADP stored employee = applyMapping (getProviderMapping stored ADP) employee"

definition transformToQuickBooks :: "providerMapping option \<Rightarrow> obj \<Rightarrow> outRecord" where
  "transformToQuickBooks stored employee =
     applyMapping (getProviderMapping stored QuickBooks) employee"


subsection \<open>The pay rate, as the specification words it\<close>

text \<open>
  The divisor by pay frequency: 52 weekly, 26 bi-weekly, 24 semi-monthly, 12 monthly, and 26
  for anything else.
\<close>

definition payDivisor :: "string option \<Rightarrow> rat" where
  "payDivisor f =
     (case map_of [(''Weekly'', 52), (''Bi-weekly'', 26), (''Semi-monthly'', 24), (''Monthly'', 12)]
             (toStr f) of
        Some d \<Rightarrow> d | None \<Rightarrow> 26)"

text \<open>
  A number printed with two decimals, rounded half up on its magnitude: the hundredths
  \<open>n = \<lfloor>|q| * 100 + 1/2\<rfloor>\<close>, then the integer part, a point and two digits.
\<close>

definition twoDecimalsHalfUp :: "rat \<Rightarrow> string" where
  "twoDecimalsHalfUp q =
     (let n = \<lfloor>\<bar>q\<bar> * 100 + 1 / 2\<rfloor> in
      (if q < 0 then ''-'' else []) @ digitsOf (n div 100) @ ''.''
      @ [digitChar (n mod 100 div 10), digitChar (n mod 10)])"


subsection \<open>Sample inputs for the transformer\<close>

text \<open>The valid employee with an empty federal filing status.\<close>

definition emptyFedStatus :: obj where
  "emptyFedStatus = assign ''fed_status'' [] validEmployee"

text \<open>
  A mapping with one declared pair whose target has a transformation that blanks the
  department \<open>HR\<close> and answers \<open>UNASSIGNED\<close> to anything else.
\<close>

definition blankingMapping :: providerMapping where
  "blankingMapping =
     \<lparr> provider = ADP,
       fieldMappings = [fm ''department'' ''Dept''],
       transformations = [(''Dept'', asStr (\<lambda>v record. if v = ''HR'' then [] else ''UNASSIGNED''))] \<rparr>"


section \<open>CSV processor\<close>

subsection \<open>\<open>parseAddress\<close>\<close>

record parsedAddress =
  street :: string
  city :: string
  state :: string
  zip_code :: string

text \<open>
  The pattern \<open>(\d{5}(?:-\d{4})?)\s*$\<close> tried at the start of \<open>s\<close>: five digits, then
  greedily a dash and four digits, then white space up to the end; without the optional
  group if the match fails with it. The result is the captured group.
\<close>

definition zipAt :: "string \<Rightarrow> string option" where
  "zipAt s =
     (if 10 \<le> length s \<and> allDigits (take 5 s) \<and> s ! 5 = CHR ''-''
         \<and> allDigits (take 4 (drop 6 s)) \<and> list_all isWhite (drop 10 s)
      then Some (take 10 s)
      else if 5 \<le> length s \<and> allDigits (take 5 s) \<and> list_all isWhite (drop 5 s)
      then Some (take 5 s)
      else None)"

text \<open>\<open>s.match(/(\d{5}(?:-\d{4})?)\s*$/)\<close>: the match at the leftmost position that has one.\<close>

fun zipMatch :: "string \<Rightarrow> string option" where
  "zipMatch [] = zipAt []"
| "zipMatch (c # cs) = (case zipAt (c # cs) of Some z \<Rightarrow> Some z | None \<Rightarrow> zipMatch cs)"

text \<open>\<open>s.lastIndexOf(z)\<close>: the search runs from the end of \<open>s\<close> downwards; \<open>-1\<close> if not found.\<close>

fun lastIndexFrom :: "nat \<Rightarrow> string \<Rightarrow> string \<Rightarrow> int" where
  "lastIndexFrom 0 s z = (if take (length z) s = z then 0 else - 1)"
| "lastIndexFrom (Suc i) s z =
     (if take (length z) (drop (Suc i) s) = z then int (Suc i) else lastIndexFrom i s z)"

definition lastIndexOf :: "string \<Rightarrow> string \<Rightarrow> int" where
  "lastIndexOf s z = lastIndexFrom (length s) s z"

text \<open>\<open>s.substring(0, k)\<close>: a negative \<open>k\<close> counts as 0.\<close>

definition substring0 :: "string \<Rightarrow> int \<Rightarrow> string" where
  "substring0 s k = take (nat k) s"

definition parseAddress :: "string \<Rightarrow> parsedAddress option" where
  "parseAddress addressString =
     (if addressString = [] \<or> trim addressString = [] then None
      else
        let trimmed = trim addressString in
        case zipMatch trimmed of
          None \<Rightarrow> None
        | Some z \<Rightarrow>
            let beforeZip = trim (substring0 trimmed (lastIndexOf trimmed z));
                parts = map trim (split (CHR '','') beforeZip)
            in if length parts < 2 then None
               else Some \<lparr> street = join '', '' (take (length parts - 2) parts),
                            city = parts ! (length parts - 2),
                            state = parts ! (length parts - 1),
                            zip_code = z \<rparr>)"

subsection \<open>\<open>processMessyData\<close>\<close>

record processingWarning =
  id_w :: string
  rowId_w :: string
  row_w :: nat
  field_w :: string
  originalValue_w :: string
  message_w :: string
  timestamp_w :: string

text \<open>The object pushed onto the caller's array of warnings.\<close>

definition mkWarning ::
  "stamps \<Rightarrow> string \<Rightarrow> nat \<Rightarrow> processingWarning list \<Rightarrow> string \<Rightarrow> string \<Rightarrow> string \<Rightarrow> processingWarning" where
  "mkWarning gen rid rowIndex warnings fld orig msg =
     \<lparr> id_w = fst (gen (length warnings)), rowId_w = rid, row_w = rowIndex, field_w = fld,
       originalValue_w = orig, message_w = msg, timestamp_w = snd (gen (length warnings)) \<rparr>"

text \<open>
  The block for the home address. The row and the warnings are threaded through; the
  source works on a copy of the row and pushes onto the caller's array.
\<close>

definition homeAddressStep ::
  "stamps \<Rightarrow> string \<Rightarrow> nat \<Rightarrow> obj \<times> processingWarning list \<Rightarrow> obj \<times> processingWarning list" where
  "homeAddressStep gen rid rowIndex st =
     (case st of (processedRow, warnings) \<Rightarrow>
        if \<not> truthy (getProp processedRow ''home_street'')
           \<and> truthy (getProp processedRow ''home_address'')
        then
          (case parseAddress (orEmpty (getProp processedRow ''home_address'')) of
             Some parsed \<Rightarrow>
               (deleteProp ''home_address''
                  (assign ''home_zip'' (zip_code parsed)
                    (assign ''home_state'' (state parsed)
                      (assign ''home_city'' (city parsed)
                        (assign ''home_street'' (street parsed) processedRow)))),
                warnings @ [mkWarning gen rid rowIndex warnings ''home_address''
                  (orEmpty (getProp processedRow ''home_address''))
                  ''Combined address field split into home_street, home_city, home_state, home_zip''])
           | None \<Rightarrow> (deleteProp ''home_address'' processedRow, warnings))
        else (processedRow, warnings))"

text \<open>The block for the work address.\<close>

definition workAddressStep ::
  "stamps \<Rightarrow> string \<Rightarrow> nat \<Rightarrow> obj \<times> processingWarning list \<Rightarrow> obj \<times> processingWarning list" where
  "workAddressStep gen rid rowIndex st =
     (case st of (processedRow, warnings) \<Rightarrow>
        if \<not> truthy (getProp processedRow ''work_street'')
           \<and> truthy (getProp processedRow ''work_address'')
        then
          (case parseAddress (orEmpty (getProp processedRow ''work_address'')) of
             Some parsed \<Rightarrow>
               (deleteProp ''work_address''
                  (assign ''work_zip'' (zip_code parsed)
                    (assign ''work_state'' (state parsed)
                      (assign ''work_city'' (city parsed)
                        (assign ''work_street'' (street parsed) processedRow)))),
                warnings @ [mkWarning gen rid rowIndex warnings ''work_address''
                  (orEmpty (getProp processedRow ''work_address''))
                  ''Combined address field split into work_street, work_city, work_state, work_zip''])
           | None \<Rightarrow> (deleteProp ''work_address'' processedRow, warnings))
        else (processedRow, warnings))"

text \<open>The block for the combined name.\<close>

definition fullNameStep ::
  "stamps \<Rightarrow> string \<Rightarrow> nat \<Rightarrow> obj \<times> processingWarning list \<Rightarrow> obj \<times> processingWarning list" where
  "fullNameStep gen rid rowIndex st =
     (case st of (processedRow, warnings) \<Rightarrow>
        if \<not> truthy (getProp processedRow ''first_name'')
           \<and> truthy (getProp processedRow ''full_name'')
        then
          (let nameParts = splitWs (trim (orEmpty (getProp processedRow ''full_name'')))
           in if 2 \<le> length nameParts
              then
                (deleteProp ''full_name''
                   (assign ''last_name'' (join '' '' (tl nameParts))
                     (assign ''first_name'' (hd nameParts) processedRow)),
                 warnings @ [mkWarning gen rid rowIndex warnings ''full_name''
                   (orEmpty (getProp processedRow ''full_name''))
                   ''Combined name field split into first_name and last_name''])
              else (deleteProp ''full_name'' processedRow, warnings))
        else (processedRow, warnings))"

text \<open>
  \<open>processMessyData\<close> returns the processed row; the second component is the caller's
  array of warnings after the call.
\<close>

definition processMessyData ::
  "stamps \<Rightarrow> obj \<Rightarrow> nat \<Rightarrow> processingWarning list \<Rightarrow> obj \<times> processingWarning list" where
  "processMessyData gen csvRow rowIndex warnings =
     (let rid = orElse (getProp csvRow ''employee_id'') (rowLabel rowIndex)
      in fullNameStep gen rid rowIndex
           (workAddressStep gen rid rowIndex
             (homeAddressStep gen rid rowIndex (csvRow, warnings))))"

subsection \<open>\<open>processCSV\<close>\<close>

text \<open>
  \<open>Object.keys\<close>: the keys that are array indices first, in ascending numeric order, then
  the other keys in insertion order.
\<close>

definition isArrayIndex :: "string \<Rightarrow> bool" where
  "isArrayIndex k =
     (k = ''0'' \<or> (k \<noteq> [] \<and> allDigits k \<and> hd k \<noteq> CHR ''0'' \<and> digitsVal k < 4294967295))"

definition objectKeys :: "obj \<Rightarrow> string list" where
  "objectKeys r =
     sort_key digitsVal (filter isArrayIndex (map fst r))
     @ filter (\<lambda>k. \<not> isArrayIndex k) (map fst r)"

definition extractEmployeeData :: "obj \<Rightarrow> obj" where
  "extractEmployeeData detRecord =
     deleteProp ''company_id'' (deleteProp ''record_sequence'' (deleteProp ''record_type'' detRecord))"

text \<open>An entry of the list of parse errors: message and row number.\<close>

type_synonym parseError = "string \<times> nat"

record csvState =
  warnings :: "processingWarning list"
  errors :: "parseError list"
  processedRows :: "obj list"
  detRecords :: "obj list"
  rowCounter :: nat
  headerFields :: "string list option"
  headersCaptured :: bool


definition missingFieldError :: "nat \<Rightarrow> string \<Rightarrow> obj \<Rightarrow> parseError" where
  "missingFieldError rowNumber fld cleanedRow =
     (''Row '' @ digitsOf (int rowNumber) @ '': Missing required field '' @ apos @ fld @ apos
        @ '' in DET record. Available fields: '' @ join '', '' (objectKeys cleanedRow),
      rowNumber)"

text \<open>
  The \<open>step\<close> callback on one parsed row. The parser hands over the row, an object with
  the normalised header names as keys, and possibly a cursor that the callback prefers to
  its own counter as the row number. Nothing in the body throws on such a row, so the
  \<open>catch\<close> branch is never entered.
\<close>

definition step :: "stamps \<Rightarrow> csvState \<Rightarrow> nat option \<times> obj \<Rightarrow> csvState" where
  "step gen st input =
     (case input of (cursor, csvRow) \<Rightarrow>
        let counter = rowCounter st + 1;
            rowNumber = (case cursor of Some c \<Rightarrow> c | None \<Rightarrow> counter);
            st1 = st \<lparr> rowCounter := counter,
                       headerFields := (if \<not> headersCaptured st then Some (objectKeys csvRow)
                                        else headerFields st),
                       headersCaptured := True \<rparr>;
            recordType = map_option toUpperCase (getProp csvRow ''record_type'')
        in if recordType = Some (codeUnits ''DET'') then
             (case processMessyData gen csvRow rowNumber (warnings st1) of
                (cleanedRow, warnings') \<Rightarrow>
                  let recordSequence = getProp cleanedRow ''record_sequence'';
                      companyId = getProp cleanedRow ''company_id'';
                      errors1 = pushIf (\<not> truthy recordSequence \<or> trim (orEmpty recordSequence) = [])
                                  (\<lambda>es. missingFieldError rowNumber ''record_sequence'' cleanedRow)
                                  (errors st1);
                      errors2 = pushIf (\<not> truthy companyId \<or> trim (orEmpty companyId) = [])
                                  (\<lambda>es. missingFieldError rowNumber ''company_id'' cleanedRow)
                                  errors1;
                      detRecord = assign ''company_id'' (orEmpty companyId)
                                    (assign ''record_sequence'' (orEmpty recordSequence) cleanedRow)
                  in st1 \<lparr> warnings := warnings', errors := errors2,
                           detRecords := detRecords st1 @ [detRecord],
                           processedRows := processedRows st1 @ [extractEmployeeData detRecord] \<rparr>)
           else st1)"






section \<open>Error tracker\<close>

record errorCorrection =
  errorId :: string
  originalValue :: string
  correctedValue :: string
  correctedBy :: "string option"
  correctedAt :: string
  notes_c :: "string option"


text \<open>\<open>getCorrectionsForError\<close>\<close>

definition getCorrectionsForError :: "errorCorrection list \<Rightarrow> string \<Rightarrow> errorCorrection list" where
  "getCorrectionsForError allCorrections eid = filter (\<lambda>c. errorId c = eid) allCorrections"







subsection \<open>The latest correction, as the specification words it\<close>


subsection \<open>Sample inputs for the report\<close>




subsection \<open>Detail rows\<close>





subsection \<open>Address parsing, as the specification words it\<close>

text \<open>
  A trailing ZIP code: the string ends with five digits, a dash and four digits, or with
  five digits.
\<close>

definition isZip5 :: "string \<Rightarrow> bool" where
  "isZip5 s = (length s = 5 \<and> allDigits s)"

definition isZipPlus4 :: "string \<Rightarrow> bool" where
  "isZipPlus4 s =
     (length s = 10 \<and> allDigits (take 5 s) \<and> s ! 5 = CHR ''-'' \<and> allDigits (drop 6 s))"

definition trailingZip :: "string \<Rightarrow> string option" where
  "trailingZip t =
     (let n = length t in
      if 10 \<le> n \<and> isZipPlus4 (drop (n - 10) t) then Some (drop (n - 10) t)
      else if 5 \<le> n \<and> isZip5 (drop (n - 5) t) then Some (drop (n - 5) t)
      else None)"

text \<open>
  The address parses when its trimmed text has a trailing ZIP code and what stands before
  the code has at least two comma-separated parts; then the last part is the state, the
  one before it the city, and the remaining parts, joined again by a comma and a space,
  the street. Parts are taken without surrounding white space.
\<close>

definition addressBySpec :: "string \<Rightarrow> parsedAddress option" where
  "addressBySpec a =
     (let t = trim a in
      case trailingZip t of
        None \<Rightarrow> None
      | Some z \<Rightarrow>
          let parts = map trim (split (CHR '','') (trim (take (length t - length z) t)))
          in if 2 \<le> length parts
             then Some \<lparr> street = join '', '' (butlast (butlast parts)),
                          city = last (butlast parts), state = last parts, zip_code = z \<rparr>
             else None)"

text \<open>The warnings about the home address among those a call has appended.\<close>

definition homeWarnings :: "processingWarning list \<Rightarrow> processingWarning list \<Rightarrow> processingWarning list" where
  "homeWarnings before after =
     filter (\<lambda>w. field_w w = ''home_address'') (drop (length before) after)"

text \<open>Scenario B: a combined home address and an empty street.\<close>

definition combinedAddressRow :: obj where
  "combinedAddressRow =
     [(''employee_id'', ''E001''), (''home_street'', []),
      (''home_address'', ''123 Main St, Hanahan, SC 29410'')]"

text \<open>A row whose \<open>home_street\<close> and \<open>home_address\<close> cells are both blank.\<close>

definition blankAddressRow :: obj where
  "blankAddressRow =
     [(''employee_id'', ''E001''), (''home_street'', []), (''home_address'', [])]"


subsection \<open>The split-sum condition, as the specification words it\<close>

text \<open>
  \<open>abs(p1 + p2 - 100) > 0.01\<close> on numbers as they are, with no rounding of the sum, of the
  difference or of the hundredth.
\<close>

definition offHundredExact :: "rat \<Rightarrow> rat \<Rightarrow> bool" where
  "offHundredExact p1 p2 = (1 / 100 < \<bar>p1 + p2 - 100\<bar>)"

text \<open>
  The valid employee with split values 100 and 0.009999999999999, both \<open>Percent\<close>: the two
  add up to less than a hundredth above 100.
\<close>

definition nearHundredScenario :: obj where
  "nearHundredScenario =
     assign ''dd2_split_value'' ''0.009999999999999'' (assign ''dd2_split_type'' ''Percent''
       validEmployee)"


text \<open>
  The valid employee with split values 33.33 and 66.66, both \<open>Percent\<close>: as decimals the
  two add up to 99.99.
\<close>

definition thirdsScenario :: obj where
  "thirdsScenario =
     assign ''dd2_split_value'' ''66.66'' (assign ''dd2_split_type'' ''Percent''
       (assign ''dd1_split_value'' ''33.33'' validEmployee))"


section \<open>Properties\<close>

subsection \<open>The compliance gate\<close>

text \<open>
  C1. For every employee or detail record, \<open>isPayrollReady\<close> is true if and only if
  \<open>i9_status\<close> is exactly the string \<open>Completed\<close> and \<open>e_verify_status\<close> is exactly the
  string \<open>Authorized\<close>. Every other combination is false, a missing field (\<open>None\<close>) and an
  empty one (\<open>Some []\<close>) included, since neither equals \<open>Some ''Completed''\<close> or
  \<open>Some ''Authorized''\<close>.
\<close>

theorem isPayrollReady_iff:
  "isPayrollReady r \<longleftrightarrow>
     getProp r ''i9_status'' = Some ''Completed'' \<and> getProp r ''e_verify_status'' = Some ''Authorized''"
  by (simp add: isPayrollReady_def)

theorem isPayrollReady_iff_witness:
  "isPayrollReady [(''i9_status'', ''Completed''), (''e_verify_status'', ''Authorized'')]
   \<and> \<not> isPayrollReady [(''i9_status'', ''Pending_Section_2''), (''e_verify_status'', ''Authorized'')]
   \<and> \<not> isPayrollReady [(''i9_status'', ''Completed''), (''e_verify_status'', '''')]
   \<and> \<not> isPayrollReady [(''e_verify_status'', ''Authorized'')]"
  using isPayrollReady_iff [of "[(''i9_status'', ''Completed''), (''e_verify_status'', ''Authorized'')]"]
    isPayrollReady_iff [of "[(''i9_status'', ''Pending_Section_2''), (''e_verify_status'', ''Authorized'')]"]
    isPayrollReady_iff [of "[(''i9_status'', ''Completed''), (''e_verify_status'', '''')]"]
    isPayrollReady_iff [of "[(''e_verify_status'', ''Authorized'')]"]
  by (simp add: getProp_def)

subsection \<open>What a validation run contains\<close>

lemma core_createError: "core (createError gen rid i h es f v t m x) = (f, v, t, m)"
  by (simp add: core_def createError_def)

lemma core_detError: "core (detError gen rid i es f v t m x) = (f, v, t, m)"
  by (simp add: core_def detError_def)

lemma runChecks_Nil: "runChecks [] es = es"
  by (simp add: runChecks_def)

lemma runChecks_Cons: "runChecks (c # cs) es = runChecks cs (c es)"
  by (simp add: runChecks_def)

lemma additive_pushIf:
  assumes "\<And>es. core (mk es) = k"
  shows "additive (pushIf b mk)"
  using assms by (simp add: additive_def pushIf_def)

lemma additive_runChecks:
  "list_all additive cs \<Longrightarrow>
     map core (runChecks cs es) = map core es @ concat (map (\<lambda>c. map core (c [])) cs)"
proof (induction cs arbitrary: es)
  case Nil
  then show ?case by (simp add: runChecks_Nil)
next
  case (Cons c cs)
  then have c: "additive c" and rest: "list_all additive cs" by simp_all
  from c have step: "map core (c es) = map core es @ map core (c [])"
    unfolding additive_def by blast
  show ?case
    unfolding runChecks_Cons Cons.IH [OF rest, of "c es"] step by simp
qed

text \<open>Every check of the two validators is additive, and what it appends is known.\<close>

lemma required_Nil:
  assumes plain: "\<And>es f v t m x. core (err es f v t m x) = (f, v, t, m)"
  shows "map core (requiredEmployeeCheck err r f []) =
     (if \<not> truthy (getProp r f) \<or> trim (orEmpty (getProp r f)) = []
      then [(f, [], REQUIRED_FIELD_MISSING,
             ''Required employee field '' @ apos @ f @ apos @ '' is missing or empty'')]
      else [])"
  by (simp add: requiredEmployeeCheck_def Let_def pushIf_def plain)

lemma additive_required:
  assumes plain: "\<And>es f v t m x. core (err es f v t m x) = (f, v, t, m)"
  shows "additive (requiredEmployeeCheck err r f)"
  unfolding requiredEmployeeCheck_def Let_def
  by (rule additive_pushIf) (simp add: plain)

lemma requiredDET_Nil:
  assumes plain: "\<And>es f v t m x. core (err es f v t m x) = (f, v, t, m)"
  shows "map core (requiredDETCheck err r f []) =
     (if \<not> truthy (getProp r f) \<or> trim (orEmpty (getProp r f)) = []
      then [(f, [], REQUIRED_FIELD_MISSING,
             ''Required DET field '' @ apos @ f @ apos @ '' is missing or empty'')]
      else [])"
  by (simp add: requiredDETCheck_def Let_def pushIf_def plain)

lemma additive_requiredDET:
  assumes plain: "\<And>es f v t m x. core (err es f v t m x) = (f, v, t, m)"
  shows "additive (requiredDETCheck err r f)"
  unfolding requiredDETCheck_def Let_def
  by (rule additive_pushIf) (simp add: plain)

lemma formatCheck_Nil:
  assumes plain: "\<And>es f v t m x. core (err es f v t m x) = (f, v, t, m)"
  shows "map core (formatCheck err r f ok msg fix []) =
     (if truthy (getProp r f) \<and> \<not> ok (orEmpty (getProp r f))
      then [(f, orEmpty (getProp r f), INVALID_FORMAT, msg @ orEmpty (getProp r f))]
      else [])"
  by (simp add: formatCheck_def Let_def pushIf_def plain)

lemma additive_formatCheck:
  assumes plain: "\<And>es f v t m x. core (err es f v t m x) = (f, v, t, m)"
  shows "additive (formatCheck err r f ok msg fix)"
  unfolding formatCheck_def Let_def
  by (rule additive_pushIf) (simp add: plain)

lemma recordTypeCheck_Nil:
  assumes plain: "\<And>es f v t m x. core (err es f v t m x) = (f, v, t, m)"
  shows "map core (recordTypeCheck err r []) =
     (if getProp r ''record_type'' \<noteq> Some ''DET''
      then [(''record_type'', orEmpty (getProp r ''record_type''), INVALID_FORMAT,
             ''Expected record_type '' @ apos @ ''DET'' @ apos @ '', got '' @ apos
               @ toStr (getProp r ''record_type'') @ apos)]
      else [])"
  by (simp add: recordTypeCheck_def Let_def pushIf_def plain)

lemma additive_recordTypeCheck:
  assumes plain: "\<And>es f v t m x. core (err es f v t m x) = (f, v, t, m)"
  shows "additive (recordTypeCheck err r)"
  unfolding recordTypeCheck_def Let_def
  by (rule additive_pushIf) (simp add: plain)

lemma additive_splitChecks:
  assumes plain: "\<And>es f v t m x. core (err es f v t m x) = (f, v, t, m)"
  shows "additive (splitChecks err r)"
  by (auto simp add: additive_def splitChecks_def Let_def pushIf_def plain splitRangeError_def
        splitSumError_def)

lemma additive_formatChecks:
  assumes plain: "\<And>es f v t m x. core (err es f v t m x) = (f, v, t, m)"
  shows "list_all additive (formatChecks err r)"
  by (simp add: formatChecks_def additive_formatCheck [OF plain])

lemma list_all_map_additive:
  assumes "\<And>f. additive (g f)"
  shows "list_all additive (map g fs)"
  using assms by (induction fs) simp_all

text \<open>A run of \<open>validateEmployeeRecord\<close>, check by check.\<close>

lemma cores_validateEmployeeRecord:
  assumes err: "err = createError gen (orElse (getProp r ''employee_id'') (rowLabel i)) i h"
  shows "map core (validateEmployeeRecord gen r i h) =
     concat (map (\<lambda>f. map core (requiredEmployeeCheck err r f [])) REQUIRED_EMPLOYEE_FIELDS)
     @ concat (map (\<lambda>c. map core (c [])) (formatChecks err r))
     @ map core (splitChecks err r [])"
proof -
  have plain: "\<And>es f v t m x. core (err es f v t m x) = (f, v, t, m)"
    by (simp add: err core_createError)
  have all: "list_all additive
      (map (requiredEmployeeCheck err r) REQUIRED_EMPLOYEE_FIELDS @ formatChecks err r
        @ [splitChecks err r])"
    by (simp add: list_all_map_additive additive_required [OF plain]
          additive_formatChecks [OF plain] additive_splitChecks [OF plain])
  have run: "validateEmployeeRecord gen r i h =
      runChecks (map (requiredEmployeeCheck err r) REQUIRED_EMPLOYEE_FIELDS @ formatChecks err r
        @ [splitChecks err r]) []"
    by (simp add: validateEmployeeRecord_def Let_def err)
  show ?thesis
    unfolding run additive_runChecks [OF all] by (simp add: comp_def)
qed

text \<open>A run of \<open>validateDETRecord\<close>, check by check.\<close>

lemma cores_validateDETRecord:
  assumes err: "err = detError gen (orElse (getProp r ''employee_id'')
                  (orElse (getProp r ''record_sequence'') (rowLabel i))) i"
  shows "map core (validateDETRecord gen r i) =
     map core (recordTypeCheck err r [])
     @ concat (map (\<lambda>f. map core (requiredDETCheck err r f [])) REQUIRED_DET_FIELDS)
     @ map core (formatCheck err r ''record_sequence'' isNumeric
                   ''Record sequence must be numeric, got: ''
                   ''Provide a numeric sequence number'' [])
     @ concat (map (\<lambda>f. map core (requiredEmployeeCheck err r f [])) REQUIRED_EMPLOYEE_FIELDS)
     @ concat (map (\<lambda>c. map core (c [])) (formatChecks err r))
     @ map core (splitChecks err r [])"
proof -
  have plain: "\<And>es f v t m x. core (err es f v t m x) = (f, v, t, m)"
    by (simp add: err core_detError)
  have all: "list_all additive
      ([recordTypeCheck err r]
       @ map (requiredDETCheck err r) REQUIRED_DET_FIELDS
       @ [formatCheck err r ''record_sequence'' isNumeric
            ''Record sequence must be numeric, got: '' ''Provide a numeric sequence number'']
       @ map (requiredEmployeeCheck err r) REQUIRED_EMPLOYEE_FIELDS
       @ formatChecks err r
       @ [splitChecks err r])"
    by (simp add: list_all_map_additive additive_required [OF plain]
          additive_requiredDET [OF plain] additive_recordTypeCheck [OF plain]
          additive_formatCheck [OF plain]
          additive_formatChecks [OF plain] additive_splitChecks [OF plain])
  have run: "validateDETRecord gen r i =
      runChecks ([recordTypeCheck err r]
       @ map (requiredDETCheck err r) REQUIRED_DET_FIELDS
       @ [formatCheck err r ''record_sequence'' isNumeric
            ''Record sequence must be numeric, got: '' ''Provide a numeric sequence number'']
       @ map (requiredEmployeeCheck err r) REQUIRED_EMPLOYEE_FIELDS
       @ formatChecks err r
       @ [splitChecks err r]) []"
    by (simp add: validateDETRecord_def Let_def err)
  show ?thesis
    unfolding run additive_runChecks [OF all] by (simp add: comp_def)
qed


lemma filter_concat_none:
  assumes "\<And>x. filter Q (g x) = []"
  shows "filter Q (concat (map g xs)) = []"
  using assms by (induction xs) simp_all

lemma truthy_orEmpty: "truthy v \<longleftrightarrow> orEmpty v \<noteq> []"
  by (simp add: truthy_def orEmpty_def split: option.splits)

subsection \<open>Format errors\<close>

lemma fmt_required_none:
  assumes plain: "\<And>es f v t m x. core (err es f v t m x) = (f, v, t, m)"
  shows "filter (isFmt F) (map core (requiredEmployeeCheck err r f [])) = []"
  by (simp add: required_Nil [OF plain] isFmt_def)

lemma fmt_requiredDET_none:
  assumes plain: "\<And>es f v t m x. core (err es f v t m x) = (f, v, t, m)"
  shows "filter (isFmt F) (map core (requiredDETCheck err r f [])) = []"
  by (simp add: requiredDET_Nil [OF plain] isFmt_def)

lemma fmt_split_none:
  assumes plain: "\<And>es f v t m x. core (err es f v t m x) = (f, v, t, m)"
  shows "filter (isFmt F) (map core (splitChecks err r [])) = []"
  by (simp add: splitChecks_def Let_def pushIf_def plain splitRangeError_def splitSumError_def
        isFmt_def)

lemma fmt_dob_formatChecks:
  assumes plain: "\<And>es f v t m x. core (err es f v t m x) = (f, v, t, m)"
  shows "filter (isFmt ''dob'') (concat (map (\<lambda>c. map core (c [])) (formatChecks err r))) =
     (if truthy (getProp r ''dob'') \<and> \<not> isValidDate (orEmpty (getProp r ''dob''))
      then [(''dob'', orEmpty (getProp r ''dob''), INVALID_FORMAT,
             ''Date of birth must be in YYYY-MM-DD format, got: '' @ orEmpty (getProp r ''dob''))]
      else [])"
  by (simp add: formatChecks_def formatCheck_Nil [OF plain] isFmt_def)

lemma fmt_salary_formatChecks:
  assumes plain: "\<And>es f v t m x. core (err es f v t m x) = (f, v, t, m)"
  shows "filter (isFmt ''annual_salary'')
           (concat (map (\<lambda>c. map core (c [])) (formatChecks err r))) =
     (if truthy (getProp r ''annual_salary'')
         \<and> \<not> isNumeric (orEmpty (getProp r ''annual_salary''))
      then [(''annual_salary'', orEmpty (getProp r ''annual_salary''), INVALID_FORMAT,
             ''Annual salary must be numeric, got: '' @ orEmpty (getProp r ''annual_salary''))]
      else [])"
  by (simp add: formatChecks_def formatCheck_Nil [OF plain] isFmt_def)

lemma fmt_sequence_formatChecks:
  assumes plain: "\<And>es f v t m x. core (err es f v t m x) = (f, v, t, m)"
  shows "filter (isFmt ''record_sequence'')
           (concat (map (\<lambda>c. map core (c [])) (formatChecks err r))) = []"
  by (simp add: formatChecks_def formatCheck_Nil [OF plain] isFmt_def)

lemma dob_errors_employee:
  "filter (isFmt ''dob'') (map core (validateEmployeeRecord gen r i h)) =
     (let d = orEmpty (getProp r ''dob'') in
      if d \<noteq> [] \<and> (\<not> datePattern d \<or> \<not> dateParses d)
      then [(''dob'', d, INVALID_FORMAT,
             ''Date of birth must be in YYYY-MM-DD format, got: '' @ d)]
      else [])"
proof -
  define err where "err = createError gen (orElse (getProp r ''employee_id'') (rowLabel i)) i h"
  have plain: "\<And>es f v t m x. core (err es f v t m x) = (f, v, t, m)"
    by (simp add: err_def core_createError)
  show ?thesis
    unfolding cores_validateEmployeeRecord [OF err_def]
    by (simp add: filter_concat_none fmt_required_none [OF plain] fmt_split_none [OF plain]
          fmt_dob_formatChecks [OF plain] truthy_orEmpty isValidDate_def Let_def)
qed

lemma dob_errors_det:
  "filter (isFmt ''dob'') (map core (validateDETRecord gen r i)) =
     (let d = orEmpty (getProp r ''dob'') in
      if d \<noteq> [] \<and> (\<not> datePattern d \<or> \<not> dateParses d)
      then [(''dob'', d, INVALID_FORMAT,
             ''Date of birth must be in YYYY-MM-DD format, got: '' @ d)]
      else [])"
proof -
  define err where "err = detError gen (orElse (getProp r ''employee_id'')
                  (orElse (getProp r ''record_sequence'') (rowLabel i))) i"
  have plain: "\<And>es f v t m x. core (err es f v t m x) = (f, v, t, m)"
    by (simp add: err_def core_detError)
  show ?thesis
    unfolding cores_validateDETRecord [OF err_def]
    by (simp add: filter_concat_none fmt_required_none [OF plain] fmt_split_none [OF plain]
          fmt_requiredDET_none [OF plain] recordTypeCheck_Nil [OF plain]
          formatCheck_Nil [OF plain] fmt_dob_formatChecks [OF plain] truthy_orEmpty
          isValidDate_def Let_def isFmt_def)
qed

text \<open>A calendar-valid date has its month and day elements in range.\<close>

lemma daysInMonth_le: "daysInMonth y m \<le> 31"
  by (simp add: daysInMonth_def)

lemma calendarValid_parses: "calendarValidDate s \<Longrightarrow> datePattern s \<and> dateParses s"
  using daysInMonth_le [of "digitsVal (take 4 s)" "digitsVal (take 2 (drop 5 s))"]
  by (auto simp add: calendarValidDate_def dateParses_def Let_def)

text \<open>
  C6. A date of birth is to be flagged when it fails the 4-2-2 digit pattern or is not a
  calendar-valid date. \<open>isValidDate\<close> tests the pattern and then asks \<open>new Date\<close> whether the
  string denotes a time, which is the test meant to catch the second case, and that test
  lets a day beyond the end of the month through. \<open>2025-02-30\<close> has the pattern and is not
  a calendar-valid date (February 2025 has 28 days), \<open>isValidDate\<close> accepts it, and the
  valid employee with that date of birth passes \<open>validateEmployeeRecord\<close> and
  \<open>validateDETRecord\<close> without any error, where an \<open>INVALID_FORMAT\<close> on \<open>dob\<close> is due.
  Scenario E is as claimed: \<open>13/45/2025\<close> gives exactly one error, an \<open>INVALID_FORMAT\<close> on
  \<open>dob\<close> whose value is the original string.
\<close>

theorem dob_day_beyond_month_accepted:
  "datePattern ''2025-02-30''
   \<and> \<not> calendarValidDate ''2025-02-30''
   \<and> isValidDate ''2025-02-30''
   \<and> validateEmployeeRecord sampleStamps (assign ''dob'' ''2025-02-30'' validEmployee) 0 None = []
   \<and> validateDETRecord sampleStamps (assign ''dob'' ''2025-02-30'' validDetail) 0 = []
   \<and> map core
        (validateEmployeeRecord sampleStamps (assign ''dob'' ''13/45/2025'' validEmployee) 0 None)
      = [(''dob'', ''13/45/2025'', INVALID_FORMAT,
          ''Date of birth must be in YYYY-MM-DD format, got: 13/45/2025'')]
   \<and> map core (validateDETRecord sampleStamps (assign ''dob'' ''13/45/2025'' validDetail) 0)
      = [(''dob'', ''13/45/2025'', INVALID_FORMAT,
          ''Date of birth must be in YYYY-MM-DD format, got: 13/45/2025'')]"
proof -
  have "datePattern ''2025-02-30''" by code_simp
  moreover have "\<not> calendarValidDate ''2025-02-30''" by code_simp
  moreover have "isValidDate ''2025-02-30''" by code_simp
  moreover have
    "validateEmployeeRecord sampleStamps (assign ''dob'' ''2025-02-30'' validEmployee) 0 None = []"
    by code_simp
  moreover have
    "validateDETRecord sampleStamps (assign ''dob'' ''2025-02-30'' validDetail) 0 = []"
    by code_simp
  moreover have "map core
        (validateEmployeeRecord sampleStamps (assign ''dob'' ''13/45/2025'' validEmployee) 0 None)
      = [(''dob'', ''13/45/2025'', INVALID_FORMAT,
          ''Date of birth must be in YYYY-MM-DD format, got: 13/45/2025'')]"
    by code_simp
  moreover have
    "map core (validateDETRecord sampleStamps (assign ''dob'' ''13/45/2025'' validDetail) 0)
      = [(''dob'', ''13/45/2025'', INVALID_FORMAT,
          ''Date of birth must be in YYYY-MM-DD format, got: 13/45/2025'')]"
    by code_simp
  ultimately show ?thesis by simp
qed


subsection \<open>Numeric checks accept a numeric prefix\<close>

lemma salary_errors_employee:
  "filter (isFmt ''annual_salary'') (map core (validateEmployeeRecord gen r i h)) =
     (if truthy (getProp r ''annual_salary'')
         \<and> \<not> isNumeric (orEmpty (getProp r ''annual_salary''))
      then [(''annual_salary'', orEmpty (getProp r ''annual_salary''), INVALID_FORMAT,
             ''Annual salary must be numeric, got: '' @ orEmpty (getProp r ''annual_salary''))]
      else [])"
proof -
  define err where "err = createError gen (orElse (getProp r ''employee_id'') (rowLabel i)) i h"
  have plain: "\<And>es f v t m x. core (err es f v t m x) = (f, v, t, m)"
    by (simp add: err_def core_createError)
  show ?thesis
    unfolding cores_validateEmployeeRecord [OF err_def]
    by (simp add: filter_concat_none fmt_required_none [OF plain] fmt_split_none [OF plain]
          fmt_salary_formatChecks [OF plain])
qed

lemma salary_errors_det:
  "filter (isFmt ''annual_salary'') (map core (validateDETRecord gen r i)) =
     (if truthy (getProp r ''annual_salary'')
         \<and> \<not> isNumeric (orEmpty (getProp r ''annual_salary''))
      then [(''annual_salary'', orEmpty (getProp r ''annual_salary''), INVALID_FORMAT,
             ''Annual salary must be numeric, got: '' @ orEmpty (getProp r ''annual_salary''))]
      else [])"
proof -
  define err where "err = detError gen (orElse (getProp r ''employee_id'')
                  (orElse (getProp r ''record_sequence'') (rowLabel i))) i"
  have plain: "\<And>es f v t m x. core (err es f v t m x) = (f, v, t, m)"
    by (simp add: err_def core_detError)
  show ?thesis
    unfolding cores_validateDETRecord [OF err_def]
    by (simp add: filter_concat_none fmt_required_none [OF plain] fmt_split_none [OF plain]
          fmt_requiredDET_none [OF plain] recordTypeCheck_Nil [OF plain]
          formatCheck_Nil [OF plain] fmt_salary_formatChecks [OF plain] isFmt_def)
qed

lemma sequence_errors_det:
  "filter (isFmt ''record_sequence'') (map core (validateDETRecord gen r i)) =
     (if truthy (getProp r ''record_sequence'')
         \<and> \<not> isNumeric (orEmpty (getProp r ''record_sequence''))
      then [(''record_sequence'', orEmpty (getProp r ''record_sequence''), INVALID_FORMAT,
             ''Record sequence must be numeric, got: ''
               @ orEmpty (getProp r ''record_sequence''))]
      else [])"
proof -
  define err where "err = detError gen (orElse (getProp r ''employee_id'')
                  (orElse (getProp r ''record_sequence'') (rowLabel i))) i"
  have plain: "\<And>es f v t m x. core (err es f v t m x) = (f, v, t, m)"
    by (simp add: err_def core_detError)
  show ?thesis
    unfolding cores_validateDETRecord [OF err_def]
    by (simp add: filter_concat_none fmt_required_none [OF plain] fmt_split_none [OF plain]
          fmt_requiredDET_none [OF plain] recordTypeCheck_Nil [OF plain]
          formatCheck_Nil [OF plain] fmt_sequence_formatChecks [OF plain] isFmt_def)
qed

lemma parseFloat_12abc: "parseFloat ''12abc'' = Fin 12"
  by code_simp

lemma parseFloat_7xyz: "parseFloat ''7xyz'' = Fin 7"
  by code_simp

lemma isNumeric_12abc: "isNumeric ''12abc''"
  by (simp add: isNumeric_def parseFloat_12abc isNaN_def isFinite_def)

lemma isNumeric_7xyz: "isNumeric ''7xyz''"
  by (simp add: isNumeric_def parseFloat_7xyz isNaN_def isFinite_def)

text \<open>
  C10. \<open>12abc\<close> and \<open>7xyz\<close> are not numbers, yet \<open>isNumeric\<close> accepts them:
  \<open>parseFloat\<close> reads the numeric prefix (12 and 7) and ignores the rest. Hence no record
  with \<open>annual_salary = 12abc\<close> gets an \<open>INVALID_FORMAT\<close> error on that field from either
  validator, and no detail record with \<open>record_sequence = 7xyz\<close> gets one on
  \<open>record_sequence\<close>.
\<close>

theorem numeric_prefix_accepted:
  "parseFloat ''12abc'' = Fin 12 \<and> parseFloat ''7xyz'' = Fin 7
   \<and> isNumeric ''12abc'' \<and> isNumeric ''7xyz''
   \<and> (getProp r ''annual_salary'' = Some ''12abc'' \<longrightarrow>
        filter (isFmt ''annual_salary'') (map core (validateEmployeeRecord gen r i h)) = []
        \<and> filter (isFmt ''annual_salary'') (map core (validateDETRecord gen r i)) = [])
   \<and> (getProp r ''record_sequence'' = Some ''7xyz'' \<longrightarrow>
        filter (isFmt ''record_sequence'') (map core (validateDETRecord gen r i)) = [])"
  by (simp add: parseFloat_12abc parseFloat_7xyz isNumeric_12abc isNumeric_7xyz
        salary_errors_employee salary_errors_det sequence_errors_det orEmpty_def)

text \<open>
  A detail record that is valid but for these two fields: neither validator reports
  anything on them (nor on any other field).
\<close>

theorem numeric_prefix_accepted_witness:
  "getProp (assign ''record_sequence'' ''7xyz'' (assign ''annual_salary'' ''12abc'' validDetail))
      ''annual_salary'' = Some ''12abc''
   \<and> getProp (assign ''record_sequence'' ''7xyz'' (assign ''annual_salary'' ''12abc'' validDetail))
      ''record_sequence'' = Some ''7xyz''
   \<and> filter (isFmt ''annual_salary'') (map core (validateEmployeeRecord sampleStamps
        (assign ''record_sequence'' ''7xyz'' (assign ''annual_salary'' ''12abc'' validDetail)) 0 None)) = []
   \<and> filter (isFmt ''annual_salary'') (map core (validateDETRecord sampleStamps
        (assign ''record_sequence'' ''7xyz'' (assign ''annual_salary'' ''12abc'' validDetail)) 0)) = []
   \<and> filter (isFmt ''record_sequence'') (map core (validateDETRecord sampleStamps
        (assign ''record_sequence'' ''7xyz'' (assign ''annual_salary'' ''12abc'' validDetail)) 0)) = []
   \<and> validateDETRecord sampleStamps
        (assign ''record_sequence'' ''7xyz'' (assign ''annual_salary'' ''12abc'' validDetail)) 0 = []"
proof -
  have a: "getProp (assign ''record_sequence'' ''7xyz'' (assign ''annual_salary'' ''12abc'' validDetail))
      ''annual_salary'' = Some ''12abc''"
    by code_simp
  have b: "getProp (assign ''record_sequence'' ''7xyz'' (assign ''annual_salary'' ''12abc'' validDetail))
      ''record_sequence'' = Some ''7xyz''"
    by code_simp
  have c: "validateDETRecord sampleStamps
        (assign ''record_sequence'' ''7xyz'' (assign ''annual_salary'' ''12abc'' validDetail)) 0 = []"
    by code_simp
  from numeric_prefix_accepted [of
      "assign ''record_sequence'' ''7xyz'' (assign ''annual_salary'' ''12abc'' validDetail)"
      sampleStamps 0 None] a b c
  show ?thesis by blast
qed


subsection \<open>The split-sum rule\<close>

lemma business_required_none:
  assumes plain: "\<And>es f v t m x. core (err es f v t m x) = (f, v, t, m)"
  shows "filter isBusiness (map core (requiredEmployeeCheck err r f [])) = []"
  by (simp add: required_Nil [OF plain] isBusiness_def)

lemma business_requiredDET_none:
  assumes plain: "\<And>es f v t m x. core (err es f v t m x) = (f, v, t, m)"
  shows "filter isBusiness (map core (requiredDETCheck err r f [])) = []"
  by (simp add: requiredDET_Nil [OF plain] isBusiness_def)

lemma business_formatChecks_none:
  assumes plain: "\<And>es f v t m x. core (err es f v t m x) = (f, v, t, m)"
  shows "filter isBusiness (concat (map (\<lambda>c. map core (c [])) (formatChecks err r))) = []"
  by (simp add: formatChecks_def formatCheck_Nil [OF plain] isBusiness_def)

text \<open>
  What the split rule appends when both split types are \<open>Percent\<close>, both values are
  non-empty and parse, and the first value is in range.
\<close>

lemma splitChecks_both_percent:
  assumes plain: "\<And>es f v t m x. core (err es f v t m x) = (f, v, t, m)"
    and t1: "getProp r ''dd1_split_type'' = Some ''Percent''"
    and t2: "getProp r ''dd2_split_type'' = Some ''Percent''"
    and v1: "getProp r ''dd1_split_value'' = Some s1" and n1: "s1 \<noteq> []"
    and v2: "getProp r ''dd2_split_value'' = Some s2" and n2: "s2 \<noteq> []"
    and p1: "\<not> isNaN (parseFloat s1)" and p2: "\<not> isNaN (parseFloat s2)"
    and lo: "\<not> lt (parseFloat s1) (Fin 0)" and hi: "\<not> lt (Fin 100) (parseFloat s1)"
  shows "map core (splitChecks err r []) =
     (if lt (fl (1 / 100)) (fabs (fsub (fadd (parseFloat s1) (parseFloat s2)) (Fin 100)))
      then [(''dd1_split_value'', s1 @ '' + '' @ s2, BUSINESS_LOGIC_ERROR,
             ''Direct deposit split percentages must sum to 100%, got: ''
               @ numToString (fadd (parseFloat s1) (parseFloat s2)) @ ''%'')]
      else [])"
  using t1 t2 v1 n1 v2 n2 p1 p2 lo hi
  by (simp add: splitChecks_def Let_def pushIf_def plain splitSumError_def offHundred_def
        truthy_def orEmpty_def)

lemma business_employee:
  "filter isBusiness (map core (validateEmployeeRecord gen r i h)) =
   filter isBusiness (map core (splitChecks
      (createError gen (orElse (getProp r ''employee_id'') (rowLabel i)) i h) r []))"
proof -
  define err where "err = createError gen (orElse (getProp r ''employee_id'') (rowLabel i)) i h"
  have plain: "\<And>es f v t m x. core (err es f v t m x) = (f, v, t, m)"
    by (simp add: err_def core_createError)
  show ?thesis
    unfolding err_def [symmetric] cores_validateEmployeeRecord [OF err_def]
    by (simp add: filter_concat_none business_required_none [OF plain]
          business_formatChecks_none [OF plain])
qed

lemma business_det:
  "filter isBusiness (map core (validateDETRecord gen r i)) =
   filter isBusiness (map core (splitChecks
      (detError gen (orElse (getProp r ''employee_id'')
         (orElse (getProp r ''record_sequence'') (rowLabel i))) i) r []))"
proof -
  define err where "err = detError gen (orElse (getProp r ''employee_id'')
                  (orElse (getProp r ''record_sequence'') (rowLabel i))) i"
  have plain: "\<And>es f v t m x. core (err es f v t m x) = (f, v, t, m)"
    by (simp add: err_def core_detError)
  show ?thesis
    unfolding err_def [symmetric] cores_validateDETRecord [OF err_def]
    by (simp add: filter_concat_none business_required_none [OF plain]
          business_requiredDET_none [OF plain] recordTypeCheck_Nil [OF plain]
          formatCheck_Nil [OF plain] business_formatChecks_none [OF plain]
          isBusiness_def)
qed

text \<open>
  C2 (as amended). Take a record whose two split types are both \<open>Percent\<close> and whose split
  values are non-empty strings that parse to numbers \<open>p1\<close> and \<open>p2\<close>, with \<open>p1\<close> between 0
  and 100. Then the \<open>BUSINESS_LOGIC_ERROR\<close>s of a validation run, by
  \<open>validateEmployeeRecord\<close> as by \<open>validateDETRecord\<close>, are: exactly the split-sum error if
  \<open>abs(p1 + p2 - 100) > 0.01\<close> as binary64 arithmetic computes it, and none otherwise. That
  is: \<open>p1\<close> and \<open>p2\<close> are the binary64 numbers that \<open>parseFloat\<close> reads, the sum and the
  difference are each rounded to the nearest binary64 number, and the bound is the binary64
  number nearest to a hundredth. The error is on \<open>dd1_split_value\<close>, its value is the two
  strings joined by \<open>+\<close>, and its message cites the rounded sum.
\<close>

theorem split_sum_rule:
  assumes "getProp r ''dd1_split_type'' = Some ''Percent''"
    and "getProp r ''dd2_split_type'' = Some ''Percent''"
    and "getProp r ''dd1_split_value'' = Some s1" and "s1 \<noteq> []"
    and "getProp r ''dd2_split_value'' = Some s2" and "s2 \<noteq> []"
    and "parseFloat s1 = p1" and "parseFloat s2 = p2"
    and "\<not> isNaN p1" and "\<not> isNaN p2"
    and "\<not> lt p1 (Fin 0)" and "\<not> lt (Fin 100) p1"
  shows "filter isBusiness (map core (validateEmployeeRecord gen r i h)) =
     (if lt (fl (1 / 100)) (fabs (fsub (fadd p1 p2) (Fin 100)))
      then [(''dd1_split_value'', s1 @ '' + '' @ s2, BUSINESS_LOGIC_ERROR,
             ''Direct deposit split percentages must sum to 100%, got: ''
               @ numToString (fadd p1 p2) @ ''%'')]
      else [])
   \<and> filter isBusiness (map core (validateDETRecord gen r i)) =
     (if lt (fl (1 / 100)) (fabs (fsub (fadd p1 p2) (Fin 100)))
      then [(''dd1_split_value'', s1 @ '' + '' @ s2, BUSINESS_LOGIC_ERROR,
             ''Direct deposit split percentages must sum to 100%, got: ''
               @ numToString (fadd p1 p2) @ ''%'')]
      else [])"
proof -
  have e: "map core (splitChecks
      (createError gen (orElse (getProp r ''employee_id'') (rowLabel i)) i h) r []) =
     (if lt (fl (1 / 100)) (fabs (fsub (fadd p1 p2) (Fin 100)))
      then [(''dd1_split_value'', s1 @ '' + '' @ s2, BUSINESS_LOGIC_ERROR,
             ''Direct deposit split percentages must sum to 100%, got: ''
               @ numToString (fadd p1 p2) @ ''%'')]
      else [])"
    using splitChecks_both_percent [where err = "createError gen (orElse (getProp r ''employee_id'') (rowLabel i)) i h"
        and r = r and ?s1.0 = s1 and ?s2.0 = s2] assms
    by (simp add: core_createError)
  have d: "map core (splitChecks
      (detError gen (orElse (getProp r ''employee_id'')
         (orElse (getProp r ''record_sequence'') (rowLabel i))) i) r []) =
     (if lt (fl (1 / 100)) (fabs (fsub (fadd p1 p2) (Fin 100)))
      then [(''dd1_split_value'', s1 @ '' + '' @ s2, BUSINESS_LOGIC_ERROR,
             ''Direct deposit split percentages must sum to 100%, got: ''
               @ numToString (fadd p1 p2) @ ''%'')]
      else [])"
    using splitChecks_both_percent [where err = "detError gen (orElse (getProp r ''employee_id'')
         (orElse (getProp r ''record_sequence'') (rowLabel i))) i"
        and r = r and ?s1.0 = s1 and ?s2.0 = s2] assms
    by (simp add: core_detError)
  show ?thesis
    unfolding business_employee business_det e d by (simp add: isBusiness_def)
qed

text \<open>
  Scenario A: split values 60 and 45, both \<open>Percent\<close>. The one \<open>BUSINESS_LOGIC_ERROR\<close> is on
  \<open>dd1_split_value\<close> and cites the total 105%; it is also the only error of the run.
\<close>

theorem split_sum_rule_witness:
  "filter isBusiness (map core (validateEmployeeRecord sampleStamps splitScenario 0 None)) =
     [(''dd1_split_value'', ''60 + 45'', BUSINESS_LOGIC_ERROR,
       ''Direct deposit split percentages must sum to 100%, got: 105%'')]
   \<and> filter isBusiness (map core (validateDETRecord sampleStamps splitScenario 0)) =
     [(''dd1_split_value'', ''60 + 45'', BUSINESS_LOGIC_ERROR,
       ''Direct deposit split percentages must sum to 100%, got: 105%'')]
   \<and> length (validateEmployeeRecord sampleStamps splitScenario 0 None) = 1"
proof -
  have h1: "getProp splitScenario ''dd1_split_type'' = Some ''Percent''" by code_simp
  have h2: "getProp splitScenario ''dd2_split_type'' = Some ''Percent''" by code_simp
  have h3: "getProp splitScenario ''dd1_split_value'' = Some ''60''" by code_simp
  have h4: "getProp splitScenario ''dd2_split_value'' = Some ''45''" by code_simp
  have h5: "parseFloat ''60'' = Fin 60" by code_simp
  have h6: "parseFloat ''45'' = Fin 45" by code_simp
  have h7: "lt (fl (1 / 100)) (fabs (fsub (fadd (Fin 60) (Fin 45)) (Fin 100)))" by code_simp
  have h8: "numToString (fadd (Fin 60) (Fin 45)) = ''105''" by code_simp
  have n: "length (validateEmployeeRecord sampleStamps splitScenario 0 None) = 1" by code_simp
  from split_sum_rule [OF h1 h2 h3 _ h4 _ h5 h6, of sampleStamps 0 None] h7 h8 n
  show ?thesis by (simp add: isNaN_def)
qed

text \<open>
  The claim as stated fails: 100 and 0.009999999999999 add up to 100.009999999999999, which
  is less than a hundredth away from 100, whether the two numbers are the decimals
  written or the binary64 numbers read from them. The rounded sum is the binary64 number
  nearest to 100.01, which is more than the bound away from 100, and the split-sum error is
  reported.
\<close>

theorem split_sum_exact_counterexample:
  "getProp nearHundredScenario ''dd1_split_type'' = Some ''Percent''
   \<and> getProp nearHundredScenario ''dd2_split_type'' = Some ''Percent''
   \<and> getProp nearHundredScenario ''dd1_split_value'' = Some ''100''
   \<and> getProp nearHundredScenario ''dd2_split_value'' = Some ''0.009999999999999''
   \<and> parseFloat ''100'' = Fin 100
   \<and> parseFloat ''0.009999999999999'' = fl (9999999999999 / 1000000000000000)
   \<and> parseFloat ''0.009999999999999'' = Fin (2882303761516829 / 288230376151711744)
   \<and> \<not> offHundredExact 100 (9999999999999 / 1000000000000000)
   \<and> \<not> offHundredExact 100 (2882303761516829 / 288230376151711744)
   \<and> filter isBusiness (map core (validateEmployeeRecord sampleStamps nearHundredScenario 0 None)) =
       [(''dd1_split_value'', ''100 + 0.009999999999999'', BUSINESS_LOGIC_ERROR,
         ''Direct deposit split percentages must sum to 100%, got: 100.01%'')]
   \<and> filter isBusiness (map core (validateDETRecord sampleStamps nearHundredScenario 0)) =
       [(''dd1_split_value'', ''100 + 0.009999999999999'', BUSINESS_LOGIC_ERROR,
         ''Direct deposit split percentages must sum to 100%, got: 100.01%'')]"
proof -
  have "getProp nearHundredScenario ''dd1_split_type'' = Some ''Percent''" by code_simp
  moreover have "getProp nearHundredScenario ''dd2_split_type'' = Some ''Percent''" by code_simp
  moreover have "getProp nearHundredScenario ''dd1_split_value'' = Some ''100''" by code_simp
  moreover have "getProp nearHundredScenario ''dd2_split_value'' = Some ''0.009999999999999''"
    by code_simp
  moreover have "parseFloat ''100'' = Fin 100" by code_simp
  moreover have "parseFloat ''0.009999999999999'' = fl (9999999999999 / 1000000000000000)"
    by code_simp
  moreover have
    "parseFloat ''0.009999999999999'' = Fin (2882303761516829 / 288230376151711744)"
    by code_simp
  moreover have "\<not> offHundredExact 100 (9999999999999 / 1000000000000000)"
    by (simp add: offHundredExact_def)
  moreover have "\<not> offHundredExact 100 (2882303761516829 / 288230376151711744)"
    by (simp add: offHundredExact_def)
  moreover have
    "filter isBusiness (map core (validateEmployeeRecord sampleStamps nearHundredScenario 0 None)) =
       [(''dd1_split_value'', ''100 + 0.009999999999999'', BUSINESS_LOGIC_ERROR,
         ''Direct deposit split percentages must sum to 100%, got: 100.01%'')]"
    by code_simp
  moreover have
    "filter isBusiness (map core (validateDETRecord sampleStamps nearHundredScenario 0)) =
       [(''dd1_split_value'', ''100 + 0.009999999999999'', BUSINESS_LOGIC_ERROR,
         ''Direct deposit split percentages must sum to 100%, got: 100.01%'')]"
    by code_simp
  ultimately show ?thesis by simp
qed

text \<open>
  The same happens with everyday values: 33.33 and 66.66 are, as decimals, exactly a
  hundredth short of 100, and the split-sum error is reported.
\<close>

lemma split_thirds_flagged:
  "\<not> offHundredExact (3333 / 100) (6666 / 100)
   \<and> parseFloat ''33.33'' = fl (3333 / 100) \<and> parseFloat ''66.66'' = fl (6666 / 100)
   \<and> filter isBusiness (map core (validateEmployeeRecord sampleStamps thirdsScenario 0 None)) =
       [(''dd1_split_value'', ''33.33 + 66.66'', BUSINESS_LOGIC_ERROR,
         ''Direct deposit split percentages must sum to 100%, got: 99.99%'')]"
proof -
  have "\<not> offHundredExact (3333 / 100) (6666 / 100)"
    by (simp add: offHundredExact_def)
  moreover have "parseFloat ''33.33'' = fl (3333 / 100)" by code_simp
  moreover have "parseFloat ''66.66'' = fl (6666 / 100)" by code_simp
  moreover have
    "filter isBusiness (map core (validateEmployeeRecord sampleStamps thirdsScenario 0 None)) =
       [(''dd1_split_value'', ''33.33 + 66.66'', BUSINESS_LOGIC_ERROR,
         ''Direct deposit split percentages must sum to 100%, got: 99.99%'')]"
    by code_simp
  ultimately show ?thesis by simp
qed


subsection \<open>The per-paycheck pay rate\<close>

lemma ipow_power: "ipow b e = b ^ nat e"
proof (induction b e rule: ipow.induct)
  case (1 b e)
  show ?case
  proof (cases "e \<le> 0")
    case True
    then show ?thesis by (subst ipow.simps) simp
  next
    case pos: False
    show ?thesis
    proof (cases "even e")
      case True
      then obtain k where k: "e = 2 * k" by (auto elim: evenE)
      with pos have "0 < k" by simp
      then have "nat (2 * k) = nat k + nat k" by simp
      with 1(1) [OF pos True] k show ?thesis
        by (subst ipow.simps) (simp add: Let_def power_add)
    next
      case False
      from pos have n: "nat e = Suc (nat (e - 1))" by simp
      have "ipow b e = b * ipow b (e - 1)"
        using pos False by (subst ipow.simps) simp
      also have "\<dots> = b * b ^ nat (e - 1)"
        using 1(2) [OF pos False] by simp
      also have "\<dots> = b ^ nat e"
        unfolding n by simp
      finally show ?thesis .
    qed
  qed
qed

lemma tens_digit: "(n::int) div 10 mod 10 = n mod 100 div 10"
proof -
  have "n mod 100 = 10 * (n div 10 mod 10) + n mod 10"
    using zmod_zmult2_eq [of 10 n 10] by simp
  then show ?thesis by simp
qed

lemma digitsOf_small: "n < 10 \<Longrightarrow> digitsOf n = [digitChar n]"
  by (subst digitsOf.simps) simp

lemma digitsOf_big: "10 \<le> n \<Longrightarrow> digitsOf n = digitsOf (n div 10) @ [digitChar (n mod 10)]"
  by (subst digitsOf.simps) simp

lemma length_digitsOf_pos: "0 < length (digitsOf n)"
  by (subst digitsOf.simps) simp

lemma digitChar_0: "digitChar 0 = CHR ''0''"
  by (simp add: digitChar_def)

text \<open>The digits that \<open>toFixed(2)\<close> lays out are integer part, point, tenths and hundredths.\<close>

lemma fixedDigits_two:
  assumes "0 \<le> n"
  shows "fixedDigits 2 n =
     digitsOf (n div 100) @ ''.'' @ [digitChar (n mod 100 div 10), digitChar (n mod 10)]"
proof -
  consider "n < 10" | "10 \<le> n" "n < 100" | "100 \<le> n" by linarith
  then show ?thesis
  proof cases
    case 1
    with assms have "n div 100 = 0" "n mod 100 div 10 = 0" "n mod 10 = n" by simp_all
    with 1 show ?thesis
      by (simp add: fixedDigits_def Let_def digitsOf_small digitChar_0 numeral_2_eq_2)
  next
    case 2
    then have a: "n div 100 = 0" "n mod 100 div 10 = n div 10" by simp_all
    from 2 have b: "n div 10 < 10" by simp
    from 2 a b show ?thesis
      by (simp add: fixedDigits_def Let_def digitsOf_big digitsOf_small digitChar_0
            numeral_2_eq_2)
  next
    case 3
    then have ten: "10 \<le> n" "10 \<le> n div 10" by simp_all
    have d: "digitsOf n =
        digitsOf (n div 100) @ [digitChar (n mod 100 div 10), digitChar (n mod 10)]"
    proof -
      have "n div 10 div 10 = n div 100" by (simp add: zdiv_zmult2_eq)
      then show ?thesis
        using ten by (simp add: digitsOf_big tens_digit)
    qed
    have l: "Suc 0 \<le> length (digitsOf (n div 100))"
      using length_digitsOf_pos [of "n div 100"] by (simp add: Suc_le_eq)
    then show ?thesis
      by (simp add: fixedDigits_def Let_def d numeral_3_eq_3 numeral_2_eq_2)
  qed
qed

lemma toFixed_two_halfUp:
  assumes "\<bar>q\<bar> < 10 ^ 21"
  shows "toFixed 2 (Fin q) = twoDecimalsHalfUp q"
proof -
  have n: "0 \<le> \<lfloor>\<bar>q\<bar> * 100 + 1 / 2\<rfloor>" by simp
  from assms have "\<not> ipow 10 21 \<le> \<bar>q\<bar>" by (simp add: ipow_power)
  then show ?thesis
    by (simp add: Let_def twoDecimalsHalfUp_def fixedDigits_two [OF n])
qed

lemma calculatePerPaycheckRate_divisor:
  "calculatePerPaycheckRate s f =
     (if isNaN (parseFloat (toStr s)) then Fin 0
      else fdiv (parseFloat (toStr s)) (Fin (payDivisor f)))"
  by (cases f) (auto simp add: calculatePerPaycheckRate_def payDivisor_def Let_def toStr_def)

lemma payRate_divisor:
  "payRate v r =
     (let s = parseFloat (toStr (getProp r ''annual_salary'')) in
      if isNaN s then ''0.00''
      else toFixed 2 (fdiv s (Fin (payDivisor (getProp r ''pay_frequency'')))))"
proof -
  have z: "toFixed 2 (Fin 0) = ''0.00''"
    by code_simp
  show ?thesis
    by (simp add: payRate_def calculatePerPaycheckRate_divisor Let_def z del: toFixed.simps)
qed

text \<open>
  C8 (as amended). \<open>PayRate\<close> of the ADP mapping and \<open>Pay Rate ($)\<close> of the QuickBooks
  mapping are the same function of the record. If the annual salary does not parse, the
  result is \<open>0.00\<close>. Otherwise it is \<open>toFixed(2)\<close> of the binary64 quotient of the parsed
  salary by 52 (\<open>Weekly\<close>), 26 (\<open>Bi-weekly\<close>), 24 (\<open>Semi-monthly\<close>), 12 (\<open>Monthly\<close>) or 26 (any
  other frequency, a missing one included). Whenever that quotient is finite and below
  \<open>10 ^ 21\<close> in magnitude, the result is the quotient printed with two decimals, rounded
  half up on its magnitude.
\<close>

theorem pay_rate_per_paycheck:
  "map_of (transformations adpMapping) ''PayRate'' = Some (asStr payRate)
   \<and> map_of (transformations quickBooksMapping) ''Pay Rate ($)'' = Some (asStr payRate)
   \<and> payRate v r =
       (let s = parseFloat (toStr (getProp r ''annual_salary'')) in
        if isNaN s then ''0.00''
        else toFixed 2 (fdiv s (Fin (payDivisor (getProp r ''pay_frequency'')))))
   \<and> (\<not> isNaN (parseFloat (toStr (getProp r ''annual_salary'')))
        \<and> fdiv (parseFloat (toStr (getProp r ''annual_salary'')))
             (Fin (payDivisor (getProp r ''pay_frequency''))) = Fin q
        \<and> \<bar>q\<bar> < 10 ^ 21
      \<longrightarrow> payRate v r = twoDecimalsHalfUp q)"
proof -
  have a: "map_of (transformations adpMapping) ''PayRate'' = Some (asStr payRate)"
    by (simp add: adpMapping_def)
  have b: "map_of (transformations quickBooksMapping) ''Pay Rate ($)'' = Some (asStr payRate)"
    by (simp add: quickBooksMapping_def)
  show ?thesis
    by (simp add: a b payRate_divisor [of v r] Let_def toFixed_two_halfUp del: toFixed.simps)
qed

text \<open>
  Scenario C: an annual salary of 120000 paid bi-weekly gives \<open>4615.38\<close>; the quotient is
  the binary64 number nearest to 120000 / 26.
\<close>

theorem pay_rate_per_paycheck_witness:
  "\<not> isNaN (parseFloat (toStr (getProp
        [(''annual_salary'', ''120000''), (''pay_frequency'', ''Bi-weekly'')] ''annual_salary'')))
   \<and> fdiv (parseFloat (toStr (getProp
        [(''annual_salary'', ''120000''), (''pay_frequency'', ''Bi-weekly'')] ''annual_salary'')))
        (Fin (payDivisor (getProp
        [(''annual_salary'', ''120000''), (''pay_frequency'', ''Bi-weekly'')] ''pay_frequency'')))
      = Fin (2537334525636923 / 549755813888)
   \<and> \<bar>2537334525636923 / 549755813888 :: rat\<bar> < 10 ^ 21
   \<and> payRate [] [(''annual_salary'', ''120000''), (''pay_frequency'', ''Bi-weekly'')] = ''4615.38''
   \<and> twoDecimalsHalfUp (2537334525636923 / 549755813888) = ''4615.38''"
proof -
  have h1: "\<not> isNaN (parseFloat (toStr (getProp
        [(''annual_salary'', ''120000''), (''pay_frequency'', ''Bi-weekly'')] ''annual_salary'')))"
    by code_simp
  have h2: "fdiv (parseFloat (toStr (getProp
        [(''annual_salary'', ''120000''), (''pay_frequency'', ''Bi-weekly'')] ''annual_salary'')))
        (Fin (payDivisor (getProp
        [(''annual_salary'', ''120000''), (''pay_frequency'', ''Bi-weekly'')] ''pay_frequency'')))
      = Fin (2537334525636923 / 549755813888)"
    by code_simp
  have h3: "\<bar>2537334525636923 / 549755813888 :: rat\<bar> < 10 ^ 21"
    by simp
  have h4: "twoDecimalsHalfUp (2537334525636923 / 549755813888) = ''4615.38''"
    by code_simp
  from pay_rate_per_paycheck [of "[]"
      "[(''annual_salary'', ''120000''), (''pay_frequency'', ''Bi-weekly'')]"
      "2537334525636923 / 549755813888"] h1 h2 h3 h4
  show ?thesis by metis
qed

text \<open>
  The claim as stated fails for a large salary: 12e21 paid monthly has the quotient
  \<open>10 ^ 21\<close>, which \<open>toFixed(2)\<close> prints in exponent notation, not with two decimals.
\<close>

theorem pay_rate_large_counterexample:
  "\<not> isNaN (parseFloat ''12e21'')
   \<and> fdiv (parseFloat ''12e21'') (Fin (payDivisor (Some ''Monthly''))) = Fin (10 ^ 21)
   \<and> payRate [] [(''annual_salary'', ''12e21''), (''pay_frequency'', ''Monthly'')] = ''1e+21''
   \<and> twoDecimalsHalfUp (10 ^ 21) = ''1000000000000000000000.00''"
proof -
  have "\<not> isNaN (parseFloat ''12e21'')" by code_simp
  moreover have "fdiv (parseFloat ''12e21'') (Fin (payDivisor (Some ''Monthly''))) = Fin (10 ^ 21)"
    by code_simp
  moreover have "payRate [] [(''annual_salary'', ''12e21''), (''pay_frequency'', ''Monthly'')] = ''1e+21''"
    by code_simp
  moreover have "twoDecimalsHalfUp (10 ^ 21) = ''1000000000000000000000.00''"
    by code_simp
  ultimately show ?thesis by simp
qed

subsection \<open>The second pass of the transformer\<close>

text \<open>
  C3. The comment above the second loop reads ``apply transformations for fields that
  don't have direct mappings'', and the claim says that the loop calls a transformation
  only for keys absent from the field-mapping list. The loop tests the output value for
  falsiness instead. With the default ADP mapping and an employee whose \<open>fed_status\<close> is
  empty, \<open>Fed_W4_Status\<close> is a declared target, the first pass sets it to the empty string,
  and the second pass calls its transformation again, with the empty source value. With a
  transformation that blanks its source value the first-pass value is overwritten: the
  output is the transformation of the empty string, not of the mapped source value.
\<close>

theorem second_pass_reinvokes_mapped_target:
  "''Fed_W4_Status'' \<in> set (map targetField (fieldMappings adpMapping))
   \<and> getProp (firstPass adpMapping emptyFedStatus (fieldMappings adpMapping) [])
        ''Fed_W4_Status'' = Some (Str [])
   \<and> secondPassCalls emptyFedStatus (transformations adpMapping)
        (firstPass adpMapping emptyFedStatus (fieldMappings adpMapping) [])
      = [''Fed_W4_Status'', ''PayRate'', ''Deduct_Code_1'', ''Deduct_Amt_1'', ''Deduct_Code_2'',
         ''Deduct_Amt_2'', ''Deduct_Code_3'', ''Deduct_Amt_3'', ''Deduct_Code_4'',
         ''Deduct_Amt_4'']
   \<and> firstPass blankingMapping [(''department'', ''HR'')] (fieldMappings blankingMapping) []
      = [(''Dept'', Str [])]
   \<and> transformToADP (Some blankingMapping) [(''department'', ''HR'')]
      = [(''Dept'', Str ''UNASSIGNED'')]"
proof -
  have "''Fed_W4_Status'' \<in> set (map targetField (fieldMappings adpMapping))"
    by code_simp
  moreover have "getProp (firstPass adpMapping emptyFedStatus (fieldMappings adpMapping) [])
        ''Fed_W4_Status'' = Some (Str [])"
    by code_simp
  moreover have "secondPassCalls emptyFedStatus (transformations adpMapping)
        (firstPass adpMapping emptyFedStatus (fieldMappings adpMapping) [])
      = [''Fed_W4_Status'', ''PayRate'', ''Deduct_Code_1'', ''Deduct_Amt_1'', ''Deduct_Code_2'',
         ''Deduct_Amt_2'', ''Deduct_Code_3'', ''Deduct_Amt_3'', ''Deduct_Code_4'',
         ''Deduct_Amt_4'']"
    by code_simp
  moreover have "firstPass blankingMapping [(''department'', ''HR'')]
        (fieldMappings blankingMapping) [] = [(''Dept'', Str [])]"
    by code_simp
  moreover have "transformToADP (Some blankingMapping) [(''department'', ''HR'')]
      = [(''Dept'', Str ''UNASSIGNED'')]"
    by code_simp
  ultimately show ?thesis by simp
qed


subsection \<open>Normalising a canonical row\<close>

text \<open>
  C7. A row that has none of the keys \<open>home_address\<close>, \<open>work_address\<close> and \<open>full_name\<close>
  comes back from \<open>processMessyData\<close> as it went in, and the caller's array of warnings is
  unchanged.
\<close>

theorem processMessyData_canonical:
  assumes "getProp r ''home_address'' = None"
    and "getProp r ''work_address'' = None"
    and "getProp r ''full_name'' = None"
  shows "processMessyData gen r n ws = (r, ws)"
  using assms
  by (simp add: processMessyData_def Let_def homeAddressStep_def workAddressStep_def
        fullNameStep_def truthy_def)

theorem processMessyData_canonical_witness:
  "getProp validEmployee ''home_address'' = None
   \<and> getProp validEmployee ''work_address'' = None
   \<and> getProp validEmployee ''full_name'' = None
   \<and> processMessyData sampleStamps validEmployee 1 [] = (validEmployee, [])"
proof -
  have a: "getProp validEmployee ''home_address'' = None" by code_simp
  have b: "getProp validEmployee ''work_address'' = None" by code_simp
  have c: "getProp validEmployee ''full_name'' = None" by code_simp
  from processMessyData_canonical [OF a b c, of sampleStamps 1 "[]"] a b c
  show ?thesis by simp
qed

subsection \<open>Promotion of detail rows\<close>










subsection \<open>The error report\<close>

lemma find_rev_snoc:
  "find P (rev (xs @ [x])) = (if P x then Some x else find P (rev xs))"
  by simp








subsection \<open>Parsing a combined address\<close>

lemma trim_no_trailing_white: "trim s = [] \<or> \<not> isWhite (last (trim s))"
proof (cases "dropWhile isWhite (rev (dropWhile isWhite s)) = []")
  case True
  then show ?thesis by (simp add: trim_def)
next
  case False
  then have "\<not> isWhite (hd (dropWhile isWhite (rev (dropWhile isWhite s))))"
    by (rule hd_dropWhile)
  with False show ?thesis
    by (simp add: trim_def last_rev)
qed

text \<open>White space up to the end, in a string that does not end in white space, is no text.\<close>

lemma white_tail_empty:
  assumes "s = [] \<or> \<not> isWhite (last s)" and "list_all isWhite (drop k s)"
  shows "length s \<le> k"
proof (rule ccontr)
  assume "\<not> length s \<le> k"
  then have ne: "drop k s \<noteq> []" by simp
  then have "last (drop k s) \<in> set (drop k s)" by (rule last_in_set)
  with assms(2) have "isWhite (last (drop k s))" by (simp add: list_all_iff)
  moreover from ne have "last (drop k s) = last s" by simp
  moreover from ne have "s \<noteq> []" by auto
  ultimately show False using assms(1) by simp
qed

lemma zipAt_trimmed:
  assumes "s = [] \<or> \<not> isWhite (last s)"
  shows "zipAt s = (if isZipPlus4 s \<or> isZip5 s then Some s else None)"
proof -
  have ten: "10 \<le> length s \<and> list_all isWhite (drop 10 s) \<longleftrightarrow> length s = 10"
    using white_tail_empty [OF assms, of 10] by auto
  have five: "5 \<le> length s \<and> list_all isWhite (drop 5 s) \<longleftrightarrow> length s = 5"
    using white_tail_empty [OF assms, of 5] by auto
  have a: "(10 \<le> length s \<and> allDigits (take 5 s) \<and> s ! 5 = CHR ''-''
        \<and> allDigits (take 4 (drop 6 s)) \<and> list_all isWhite (drop 10 s)) \<longleftrightarrow> isZipPlus4 s"
    using ten by (auto simp add: isZipPlus4_def)
  have b: "(5 \<le> length s \<and> allDigits (take 5 s) \<and> list_all isWhite (drop 5 s)) \<longleftrightarrow> isZip5 s"
    using five by (auto simp add: isZip5_def)
  have c: "isZipPlus4 s \<Longrightarrow> take 10 s = s" by (simp add: isZipPlus4_def)
  have d: "isZip5 s \<Longrightarrow> take 5 s = s" by (simp add: isZip5_def)
  show ?thesis
    unfolding zipAt_def a b using c d by auto
qed


lemma trailingZip_Cons:
  assumes "\<not> isZipPlus4 (c # cs)" and "\<not> isZip5 (c # cs)"
  shows "trailingZip (c # cs) = trailingZip cs"
proof -
  consider "10 \<le> length cs" | "length cs = 9" | "5 \<le> length cs" "length cs < 9"
    | "length cs = 4" | "length cs < 4"
    by linarith
  then show ?thesis
  proof cases
    case 1
    then have "Suc (length cs) - 10 = Suc (length cs - 10)"
      and "Suc (length cs) - 5 = Suc (length cs - 5)" by simp_all
    with 1 show ?thesis by (simp add: trailingZip_def Let_def)
  next
    case 2
    then have "Suc (length cs) - 5 = Suc (length cs - 5)" by simp
    with 2 assms(1) show ?thesis by (simp add: trailingZip_def Let_def)
  next
    case 3
    then have "Suc (length cs) - 5 = Suc (length cs - 5)" by simp
    with 3 show ?thesis by (simp add: trailingZip_def Let_def)
  next
    case 4
    with assms(2) show ?thesis by (simp add: trailingZip_def Let_def)
  next
    case 5
    then show ?thesis by (simp add: trailingZip_def Let_def)
  qed
qed

lemma trailingZip_whole:
  assumes "isZipPlus4 s \<or> isZip5 s"
  shows "trailingZip s = Some s"
  using assms by (auto simp add: trailingZip_def Let_def isZipPlus4_def isZip5_def)

text \<open>On a trimmed string the leftmost match of the pattern is the trailing ZIP code.\<close>

lemma zipMatch_trailing:
  assumes "t = [] \<or> \<not> isWhite (last t)"
  shows "zipMatch t = trailingZip t"
  using assms
proof (induction t)
  case Nil
  show ?case by (simp add: zipAt_def trailingZip_def)
next
  case (Cons c cs)
  from Cons.prems have here: "c # cs = [] \<or> \<not> isWhite (last (c # cs))" by simp
  from Cons.prems have rest: "cs = [] \<or> \<not> isWhite (last cs)" by (cases cs) simp_all
  show ?case
  proof (cases "isZipPlus4 (c # cs) \<or> isZip5 (c # cs)")
    case True
    then show ?thesis
      by (simp add: zipAt_trimmed [OF here] trailingZip_whole)
  next
    case False
    then show ?thesis
      using Cons.IH [OF rest] by (simp add: zipAt_trimmed [OF here] trailingZip_Cons)
  qed
qed

text \<open>The search from the end finds a suffix where it starts.\<close>

lemma lastIndexFrom_suffix:
  assumes "z \<noteq> []" and "length p \<le> i"
  shows "lastIndexFrom i (p @ z) z = int (length p)"
  using assms(2)
proof (induction i)
  case 0
  then show ?case by simp
next
  case (Suc i)
  show ?case
  proof (cases "length p = Suc i")
    case True
    then show ?thesis by simp
  next
    case False
    with Suc.prems have le: "length p \<le> i" by simp
    define u where "u = take (length z) (drop (Suc i) (p @ z))"
    from assms(1) have "0 < length z" by simp
    with le have "length z + length p - Suc i < length z" by arith
    then have "length u < length z"
      unfolding u_def by (simp add: min_def)
    then have "u \<noteq> z" by auto
    with Suc.IH [OF le] show ?thesis
      unfolding u_def by simp
  qed
qed

lemma trailingZip_suffix:
  assumes "trailingZip t = Some z"
  shows "z \<noteq> [] \<and> length z \<le> length t \<and> t = take (length t - length z) t @ z"
proof -
  from assms consider "10 \<le> length t" "z = drop (length t - 10) t"
    | "5 \<le> length t" "z = drop (length t - 5) t"
    by (auto simp add: trailingZip_def Let_def split: if_splits)
  then show ?thesis
  proof cases
    case 1
    then have "length z = 10" by simp
    with 1 show ?thesis by auto
  next
    case 2
    then have "length z = 5" by simp
    with 2 show ?thesis by auto
  qed
qed

lemma lastIndexOf_trailingZip:
  assumes "trailingZip t = Some z"
  shows "substring0 t (lastIndexOf t z) = take (length t - length z) t"
proof -
  from trailingZip_suffix [OF assms]
  have z: "z \<noteq> []" and le: "length z \<le> length t"
    and t: "t = take (length t - length z) t @ z" by simp_all
  have "lastIndexFrom (length t) (take (length t - length z) t @ z) z
      = int (length (take (length t - length z) t))"
    by (rule lastIndexFrom_suffix [OF z]) simp
  with t have "lastIndexOf t z = int (length t - length z)"
    by (simp add: lastIndexOf_def)
  then show ?thesis by (simp add: substring0_def)
qed

lemma last_two:
  assumes "2 \<le> length xs"
  shows "take (length xs - 2) xs = butlast (butlast xs)
     \<and> xs ! (length xs - 2) = last (butlast xs)
     \<and> xs ! (length xs - 1) = last xs"
proof -
  from assms have "length (butlast xs) \<noteq> 0" by simp
  then have "butlast xs \<noteq> []" by (metis list.size(3))
  with assms have ne: "xs \<noteq> []" "butlast xs \<noteq> []" by auto
  have a: "take (length xs - 2) xs = butlast (butlast xs)"
    by (simp add: butlast_conv_take numeral_2_eq_2)
  have b: "last (butlast xs) = butlast xs ! (length (butlast xs) - 1)"
    using ne by (simp add: last_conv_nth)
  have c: "butlast xs ! (length xs - 2) = xs ! (length xs - 2)"
    using assms by (simp add: nth_butlast)
  have d: "length (butlast xs) - 1 = length xs - 2" by simp
  from a b c d ne show ?thesis by (simp add: last_conv_nth)
qed

text \<open>\<open>parseAddress\<close> computes what the specification describes.\<close>

lemma parseAddress_spec: "parseAddress a = addressBySpec a"
proof (cases "a = [] \<or> trim a = []")
  case True
  then have "trim a = []" by (auto simp add: trim_def)
  with True show ?thesis
    by (simp add: parseAddress_def addressBySpec_def trailingZip_def)
next
  case False
  have m: "zipMatch (trim a) = trailingZip (trim a)"
    by (rule zipMatch_trailing) (rule trim_no_trailing_white)
  show ?thesis
  proof (cases "trailingZip (trim a)")
    case None
    with False m show ?thesis
      by (simp add: parseAddress_def addressBySpec_def)
  next
    case (Some z)
    note sub = lastIndexOf_trailingZip [OF Some]
    show ?thesis
    proof (cases "2 \<le> length (map trim (split (CHR '','')
        (trim (take (length (trim a) - length z) (trim a)))))")
      case True
      from last_two [OF True] False m Some sub True show ?thesis
        by (simp add: parseAddress_def addressBySpec_def Let_def)
    next
      case short: False
      with False m Some sub show ?thesis
        by (simp add: parseAddress_def addressBySpec_def Let_def)
    qed
  qed
qed


subsection \<open>The home address block of \<open>processMessyData\<close>\<close>

lemma getProp_assign: "getProp (assign k v r) k' = (if k' = k then Some v else getProp r k')"
  by (simp add: getProp_def assign_def update_conv')

lemma getProp_deleteProp: "getProp (deleteProp k r) k' = (if k' = k then None else getProp r k')"
  by (simp add: getProp_def deleteProp_def delete_conv')

text \<open>The later two blocks leave the home fields alone and push no home warning.\<close>

lemma workAddressStep_keeps:
  assumes "k \<notin> set [''work_street'', ''work_city'', ''work_state'', ''work_zip'', ''work_address'']"
  shows "getProp (fst (workAddressStep gen rid n st)) k = getProp (fst st) k"
  using assms
  by (cases st)
     (simp add: workAddressStep_def getProp_assign getProp_deleteProp split: option.splits)

lemma workAddressStep_warnings:
  "\<exists>ys. snd (workAddressStep gen rid n st) = snd st @ ys
      \<and> filter (\<lambda>w. field_w w = ''home_address'') ys = []
      \<and> (getProp (fst st) ''work_address'' = None \<longrightarrow> ys = [])"
  by (cases st)
     (auto simp add: workAddressStep_def mkWarning_def truthy_def split: option.splits)

lemma fullNameStep_keeps:
  assumes "k \<notin> set [''first_name'', ''last_name'', ''full_name'']"
  shows "getProp (fst (fullNameStep gen rid n st)) k = getProp (fst st) k"
  using assms
  by (cases st)
     (simp add: fullNameStep_def Let_def getProp_assign getProp_deleteProp)

lemma fullNameStep_warnings:
  "\<exists>ys. snd (fullNameStep gen rid n st) = snd st @ ys
      \<and> filter (\<lambda>w. field_w w = ''home_address'') ys = []
      \<and> (getProp (fst st) ''full_name'' = None \<longrightarrow> ys = [])"
  by (cases st)
     (auto simp add: fullNameStep_def Let_def mkWarning_def truthy_def split: option.splits)

text \<open>The home block itself, on a row with an empty street and a combined address.\<close>

lemma homeAddressStep_combined:
  assumes "\<not> truthy (getProp r ''home_street'')"
    and "getProp r ''home_address'' = Some a" and "a \<noteq> []"
  shows "homeAddressStep gen rid n (r, ws) =
     (case addressBySpec a of
        Some p \<Rightarrow>
          (deleteProp ''home_address''
             (assign ''home_zip'' (zip_code p)
               (assign ''home_state'' (state p)
                 (assign ''home_city'' (city p)
                   (assign ''home_street'' (street p) r)))),
           ws @ [mkWarning gen rid n ws ''home_address'' a
             ''Combined address field split into home_street, home_city, home_state, home_zip''])
      | None \<Rightarrow> (deleteProp ''home_address'' r, ws))"
  using assms
  by (cases "addressBySpec a")
     (simp_all add: homeAddressStep_def parseAddress_spec truthy_def orEmpty_def)

lemma processMessyData_home:
  assumes street: "\<not> truthy (getProp r ''home_street'')"
    and addr: "getProp r ''home_address'' = Some a" and ne: "a \<noteq> []"
  shows "getProp (fst (processMessyData gen r n ws)) ''home_address'' = None
     \<and> take (length ws) (snd (processMessyData gen r n ws)) = ws
     \<and> (case addressBySpec a of
          Some p \<Rightarrow>
            getProp (fst (processMessyData gen r n ws)) ''home_street'' = Some (street p)
            \<and> getProp (fst (processMessyData gen r n ws)) ''home_city'' = Some (city p)
            \<and> getProp (fst (processMessyData gen r n ws)) ''home_state'' = Some (state p)
            \<and> getProp (fst (processMessyData gen r n ws)) ''home_zip'' = Some (zip_code p)
            \<and> map originalValue_w (homeWarnings ws (snd (processMessyData gen r n ws))) = [a]
        | None \<Rightarrow>
            getProp (fst (processMessyData gen r n ws)) ''home_street'' = getProp r ''home_street''
            \<and> getProp (fst (processMessyData gen r n ws)) ''home_city'' = getProp r ''home_city''
            \<and> getProp (fst (processMessyData gen r n ws)) ''home_state'' = getProp r ''home_state''
            \<and> getProp (fst (processMessyData gen r n ws)) ''home_zip'' = getProp r ''home_zip''
            \<and> homeWarnings ws (snd (processMessyData gen r n ws)) = [])
     \<and> (getProp r ''work_address'' = None \<and> getProp r ''full_name'' = None \<longrightarrow>
          length (snd (processMessyData gen r n ws)) =
            length ws + (case addressBySpec a of Some p \<Rightarrow> 1 | None \<Rightarrow> 0))"
proof -
  define rid where "rid = orElse (getProp r ''employee_id'') (rowLabel n)"
  define st1 where "st1 = homeAddressStep gen rid n (r, ws)"
  define st2 where "st2 = workAddressStep gen rid n st1"
  define res where "res = processMessyData gen r n ws"
  have run: "res = fullNameStep gen rid n st2"
    by (simp add: res_def processMessyData_def Let_def rid_def st1_def st2_def)
  note home = homeAddressStep_combined [OF street addr ne, of gen rid n ws, folded st1_def]
  from workAddressStep_warnings [of gen rid n st1, folded st2_def]
  obtain ys2 where ys2: "snd st2 = snd st1 @ ys2"
    and no2: "filter (\<lambda>w. field_w w = ''home_address'') ys2 = []"
    and e2: "getProp (fst st1) ''work_address'' = None \<longrightarrow> ys2 = []"
    by (elim exE conjE)
  from fullNameStep_warnings [of gen rid n st2, folded run]
  obtain ys3 where ys3: "snd res = snd st2 @ ys3"
    and no3: "filter (\<lambda>w. field_w w = ''home_address'') ys3 = []"
    and e3: "getProp (fst st2) ''full_name'' = None \<longrightarrow> ys3 = []"
    by (elim exE conjE)
  have kA: "getProp (fst res) ''home_address'' = getProp (fst st1) ''home_address''"
    unfolding run st2_def by (simp add: fullNameStep_keeps workAddressStep_keeps)
  have kS: "getProp (fst res) ''home_street'' = getProp (fst st1) ''home_street''"
    unfolding run st2_def by (simp add: fullNameStep_keeps workAddressStep_keeps)
  have kC: "getProp (fst res) ''home_city'' = getProp (fst st1) ''home_city''"
    unfolding run st2_def by (simp add: fullNameStep_keeps workAddressStep_keeps)
  have kT: "getProp (fst res) ''home_state'' = getProp (fst st1) ''home_state''"
    unfolding run st2_def by (simp add: fullNameStep_keeps workAddressStep_keeps)
  have kZ: "getProp (fst res) ''home_zip'' = getProp (fst st1) ''home_zip''"
    unfolding run st2_def by (simp add: fullNameStep_keeps workAddressStep_keeps)
  have full: "getProp (fst st2) ''full_name'' = getProp (fst st1) ''full_name''"
    unfolding st2_def by (simp add: workAddressStep_keeps)
  have all: "snd res = snd st1 @ ys2 @ ys3"
    by (simp add: ys3 ys2)
  show ?thesis
  proof (cases "addressBySpec a")
    case None
    with home have st1: "fst st1 = deleteProp ''home_address'' r" "snd st1 = ws" by simp_all
    have gone: "getProp (fst res) ''home_address'' = None"
      by (simp add: kA st1 getProp_deleteProp)
    have pre: "take (length ws) (snd res) = ws"
      by (simp add: all st1)
    have hs: "getProp (fst res) ''home_street'' = getProp r ''home_street''"
      by (simp add: kS st1 getProp_deleteProp)
    have hc: "getProp (fst res) ''home_city'' = getProp r ''home_city''"
      by (simp add: kC st1 getProp_deleteProp)
    have ht: "getProp (fst res) ''home_state'' = getProp r ''home_state''"
      by (simp add: kT st1 getProp_deleteProp)
    have hz: "getProp (fst res) ''home_zip'' = getProp r ''home_zip''"
      by (simp add: kZ st1 getProp_deleteProp)
    have hw: "homeWarnings ws (snd res) = []"
      by (simp add: homeWarnings_def all st1 no2 no3)
    have len: "length (snd res) = length ws"
      if "getProp r ''work_address'' = None" and "getProp r ''full_name'' = None"
    proof -
      from that have "getProp (fst st1) ''work_address'' = None"
        and "getProp (fst st1) ''full_name'' = None"
        by (simp_all add: st1 getProp_deleteProp)
      hence "ys2 = []" and "ys3 = []" using e2 e3 full by simp_all
      thus ?thesis by (simp add: all st1)
    qed
    from None gone pre hs hc ht hz hw len show ?thesis
      unfolding res_def by simp
  next
    case (Some p)
    with home have st1:
      "fst st1 = deleteProp ''home_address''
           (assign ''home_zip'' (zip_code p)
             (assign ''home_state'' (state p)
               (assign ''home_city'' (city p)
                 (assign ''home_street'' (street p) r))))"
      "snd st1 = ws @ [mkWarning gen rid n ws ''home_address'' a
           ''Combined address field split into home_street, home_city, home_state, home_zip'']"
      by simp_all
    have gone: "getProp (fst res) ''home_address'' = None"
      by (simp add: kA st1 getProp_deleteProp)
    have pre: "take (length ws) (snd res) = ws"
      by (simp add: all st1)
    have hs: "getProp (fst res) ''home_street'' = Some (street p)"
      by (simp add: kS st1 getProp_deleteProp getProp_assign)
    have hc: "getProp (fst res) ''home_city'' = Some (city p)"
      by (simp add: kC st1 getProp_deleteProp getProp_assign)
    have ht: "getProp (fst res) ''home_state'' = Some (state p)"
      by (simp add: kT st1 getProp_deleteProp getProp_assign)
    have hz: "getProp (fst res) ''home_zip'' = Some (zip_code p)"
      by (simp add: kZ st1 getProp_deleteProp getProp_assign)
    have hw: "map originalValue_w (homeWarnings ws (snd res)) = [a]"
      by (simp add: homeWarnings_def all st1 no2 no3 mkWarning_def)
    have len: "length (snd res) = length ws + 1"
      if "getProp r ''work_address'' = None" and "getProp r ''full_name'' = None"
    proof -
      from that have "getProp (fst st1) ''work_address'' = None"
        and "getProp (fst st1) ''full_name'' = None"
        by (simp_all add: st1 getProp_deleteProp getProp_assign)
      hence "ys2 = []" and "ys3 = []" using e2 e3 full by simp_all
      thus ?thesis by (simp add: all st1)
    qed
    from Some gone pre hs hc ht hz hw len show ?thesis
      unfolding res_def by simp
  qed
qed

text \<open>
  C5 (as amended). Take a row whose \<open>home_street\<close> is empty and whose \<open>home_address\<close> holds
  a non-empty text \<open>a\<close>. The row that \<open>processMessyData\<close> returns has no \<open>home_address\<close>
  key, whether or not \<open>a\<close> parses, and \<open>parseAddress\<close> parses \<open>a\<close> exactly when the trimmed
  text ends with a ZIP code (five digits, or five digits, a dash and four digits) before
  which at least two comma-separated parts stand. When \<open>a\<close> parses, \<open>home_street\<close>,
  \<open>home_city\<close>, \<open>home_state\<close> and \<open>home_zip\<close> are set (the last part is the state, the one
  before it the city, the others joined by a comma and a space the street) and exactly one
  warning about \<open>home_address\<close> is appended, carrying \<open>a\<close>. When \<open>a\<close> does not parse, the
  four fields are as they were and no warning about \<open>home_address\<close> is appended. The
  warnings already in the array stay in front, and on a row without \<open>work_address\<close> and
  \<open>full_name\<close> the array grows by one warning in the first case and by none in the second.
\<close>

theorem combined_home_address:
  assumes "\<not> truthy (getProp r ''home_street'')"
    and "getProp r ''home_address'' = Some a" and "a \<noteq> []"
  shows "parseAddress a = addressBySpec a
     \<and> getProp (fst (processMessyData gen r n ws)) ''home_address'' = None
     \<and> take (length ws) (snd (processMessyData gen r n ws)) = ws
     \<and> (case addressBySpec a of
          Some p \<Rightarrow>
            getProp (fst (processMessyData gen r n ws)) ''home_street'' = Some (street p)
            \<and> getProp (fst (processMessyData gen r n ws)) ''home_city'' = Some (city p)
            \<and> getProp (fst (processMessyData gen r n ws)) ''home_state'' = Some (state p)
            \<and> getProp (fst (processMessyData gen r n ws)) ''home_zip'' = Some (zip_code p)
            \<and> map originalValue_w (homeWarnings ws (snd (processMessyData gen r n ws))) = [a]
        | None \<Rightarrow>
            getProp (fst (processMessyData gen r n ws)) ''home_street'' = getProp r ''home_street''
            \<and> getProp (fst (processMessyData gen r n ws)) ''home_city'' = getProp r ''home_city''
            \<and> getProp (fst (processMessyData gen r n ws)) ''home_state'' = getProp r ''home_state''
            \<and> getProp (fst (processMessyData gen r n ws)) ''home_zip'' = getProp r ''home_zip''
            \<and> homeWarnings ws (snd (processMessyData gen r n ws)) = [])
     \<and> (getProp r ''work_address'' = None \<and> getProp r ''full_name'' = None \<longrightarrow>
          length (snd (processMessyData gen r n ws)) =
            length ws + (case addressBySpec a of Some p \<Rightarrow> 1 | None \<Rightarrow> 0))"
  using processMessyData_home [OF assms, of gen n ws] parseAddress_spec [of a]
  by blast

theorem combined_home_address_witness:
  "\<not> truthy (getProp combinedAddressRow ''home_street'')
   \<and> getProp combinedAddressRow ''home_address'' = Some ''123 Main St, Hanahan, SC 29410''
   \<and> getProp (fst (processMessyData sampleStamps combinedAddressRow 0 [])) ''home_address'' = None
   \<and> getProp (fst (processMessyData sampleStamps combinedAddressRow 0 [])) ''home_street''
        = Some ''123 Main St''
   \<and> getProp (fst (processMessyData sampleStamps combinedAddressRow 0 [])) ''home_city''
        = Some ''Hanahan''
   \<and> getProp (fst (processMessyData sampleStamps combinedAddressRow 0 [])) ''home_state''
        = Some ''SC''
   \<and> getProp (fst (processMessyData sampleStamps combinedAddressRow 0 [])) ''home_zip''
        = Some ''29410''
   \<and> length (snd (processMessyData sampleStamps combinedAddressRow 0 [])) = 1"
proof -
  have s: "\<not> truthy (getProp combinedAddressRow ''home_street'')" by code_simp
  have a: "getProp combinedAddressRow ''home_address'' = Some ''123 Main St, Hanahan, SC 29410''"
    by code_simp
  have ne: "''123 Main St, Hanahan, SC 29410'' \<noteq> []" by simp
  have w: "getProp combinedAddressRow ''work_address'' = None" by code_simp
  have f: "getProp combinedAddressRow ''full_name'' = None" by code_simp
  have p: "addressBySpec ''123 Main St, Hanahan, SC 29410'' =
      Some \<lparr> street = ''123 Main St'', city = ''Hanahan'', state = ''SC'',
             zip_code = ''29410'' \<rparr>"
    by code_simp
  from combined_home_address [OF s a ne, of sampleStamps 0 "[]"] s a w f
  show ?thesis unfolding p by simp
qed

text \<open>
  The claim as stated fails for a \<open>home_address\<close> that is present and blank: the guard of
  the home block asks for a truthy \<open>home_address\<close>, so the block is skipped and the key
  stays in the row.
\<close>

theorem blank_home_address_counterexample:
  "\<not> truthy (getProp blankAddressRow ''home_street'')
   \<and> getProp blankAddressRow ''home_address'' = Some []
   \<and> processMessyData sampleStamps blankAddressRow 0 [] = (blankAddressRow, [])
   \<and> getProp (fst (processMessyData sampleStamps blankAddressRow 0 [])) ''home_address'' = Some []"
proof -
  have "\<not> truthy (getProp blankAddressRow ''home_street'')" by code_simp
  moreover have "getProp blankAddressRow ''home_address'' = Some []" by code_simp
  moreover have "processMessyData sampleStamps blankAddressRow 0 [] = (blankAddressRow, [])"
    by code_simp
  moreover have
    "getProp (fst (processMessyData sampleStamps blankAddressRow 0 [])) ''home_address'' = Some []"
    by code_simp
  ultimately show ?thesis by simp
qed

end
